theory Spec2Isabelle
  imports Complex_Main "HOL-Library.Sublist"
begin

section \<open>Python values used by the agent runtime\<close>

text \<open>
  Python strings are modelled as \<open>string\<close>. The fixed non-ASCII texts of the source are
  written as their UTF-8 bytes. Substring search, counting, replacement and prefix tests
  agree on UTF-8 bytes and on code points; the only operation where the two differ is
  \<open>len\<close>, which the model applies to argument strings only (one \<open>char\<close> per code point
  there), never to the fixed texts.
\<close>

subsection \<open>Exceptions\<close>

text \<open>
  Every constructor is a subclass of Python's \<open>Exception\<close>; the handlers of the source
  are \<open>except PermissionError\<close> and \<open>except Exception\<close>. \<open>str_of_exception\<close> is \<open>str(e)\<close>.
\<close>

datatype py_exception =
    PermissionError string
  | FileNotFoundError string
  | IsADirectoryError string
  | FileExistsError string
  | NotADirectoryError string
  | ValueError string
  | IndexError string
  | RuntimeError string

fun str_of_exception :: "py_exception \<Rightarrow> string" where
  "str_of_exception (PermissionError m) = m"
| "str_of_exception (FileNotFoundError m) = m"
| "str_of_exception (IsADirectoryError m) = m"
| "str_of_exception (FileExistsError m) = m"
| "str_of_exception (NotADirectoryError m) = m"
| "str_of_exception (ValueError m) = m"
| "str_of_exception (IndexError m) = m"
| "str_of_exception (RuntimeError m) = m"

subsection \<open>String operations\<close>

text \<open>\<open>s.startswith(p)\<close>.\<close>

definition py_startswith :: "string \<Rightarrow> string \<Rightarrow> bool" where
  "py_startswith s p = prefix p s"

text \<open>\<open>sub in s\<close>.\<close>

fun py_in :: "string \<Rightarrow> string \<Rightarrow> bool" where
  "py_in sub [] = (sub = [])"
| "py_in sub (c # cs) = (prefix sub (c # cs) \<or> py_in sub cs)"

text \<open>
  \<open>s.count(sub)\<close>: the number of non-overlapping occurrences, scanning from the left and
  jumping over each match; \<open>len(s) + 1\<close> for the empty \<open>sub\<close>.
\<close>

function py_count :: "string \<Rightarrow> string \<Rightarrow> nat" where
  "py_count sub [] = (if sub = [] then 1 else 0)"
| "py_count sub (c # cs) =
     (if sub = [] then length (c # cs) + 1
      else if prefix sub (c # cs) then 1 + py_count sub (drop (length sub) (c # cs))
      else py_count sub cs)"
  by pat_completeness auto
termination
  by (relation "measure (\<lambda>(sub, s). length s)") auto

text \<open>\<open>s.replace(old, new, 1)\<close>: the leftmost occurrence only.\<close>

fun py_replace1 :: "string \<Rightarrow> string \<Rightarrow> string \<Rightarrow> string" where
  "py_replace1 old new [] = (if old = [] then new else [])"
| "py_replace1 old new (c # cs) =
     (if prefix old (c # cs) then new @ drop (length old) (c # cs)
      else c # py_replace1 old new cs)"

text \<open>\<open>s.split(sep, 1)\<close> for a one-character separator that occurs in \<open>s\<close>: the two parts.\<close>

definition py_split1 :: "char \<Rightarrow> string \<Rightarrow> string \<times> string" where
  "py_split1 sep s = (takeWhile (\<lambda>c. c \<noteq> sep) s, tl (dropWhile (\<lambda>c. c \<noteq> sep) s))"

text \<open>
  \<open>s.split("/")[-1]\<close>, which is also the \<open>name\<close> of a normalised path, and \<open>sep.join(xs)\<close>.
\<close>

definition last_segment :: "string \<Rightarrow> string" where
  "last_segment s = rev (takeWhile (\<lambda>c. c \<noteq> CHR ''/'') (rev s))"

fun py_join :: "string \<Rightarrow> string list \<Rightarrow> string" where
  "py_join sep [] = []"
| "py_join sep [x] = x"
| "py_join sep (x # y # ys) = x @ sep @ py_join sep (y # ys)"

text \<open>Decimal rendering of a non-negative integer inside an f-string.\<close>

fun str_of_nat :: "nat \<Rightarrow> string" where
  "str_of_nat n =
     (if n < 10 then [''0123456789'' ! n]
      else str_of_nat (n div 10) @ [''0123456789'' ! (n mod 10)])"

declare str_of_nat.simps [simp del]

text \<open>
  The start positions at which \<open>sub\<close> occurs in \<open>s\<close>, overlapping ones included: the
  occurrences an editor could pick from.
\<close>

definition occurrences :: "string \<Rightarrow> string \<Rightarrow> nat list" where
  "occurrences sub s = filter (\<lambda>i. prefix sub (drop i s)) [0..<Suc (length s)]"

subsection \<open>JSON values\<close>

text \<open>
  The values \<open>json.loads\<close> produces and tool arguments carry. A \<open>dict\<close> is an association
  list in insertion order (keys distinct in every real dict). Finite floats are the reals
  they denote, so comparisons are exact as in Python; NaN and the infinities are not
  represented.
\<close>

datatype json =
    JNull
  | JBool bool
  | JInt int
  | JFloat real
  | JStr string
  | JArr "json list"
  | JObj "(string \<times> json) list"






section \<open>Tool base class (agent/tools/base.py)\<close>





















section \<open>Filesystem tools (agent/tools/filesystem.py)\<close>

text \<open>
  The file tree is a map from resolved path strings to nodes. \<open>pathlib\<close> is a library:
  \<open>expanduser\<close> and \<open>resolve\<close> are parameters of the model, from the string of a path to
  the string of the expanded or resolved path.
\<close>

datatype node = File string | Dir

type_synonym fs = "string \<Rightarrow> node option"

definition path_exists :: "fs \<Rightarrow> string \<Rightarrow> bool" where
  "path_exists t p = (t p \<noteq> None)"

definition is_file :: "fs \<Rightarrow> string \<Rightarrow> bool" where
  "is_file t p = (case t p of Some (File c) \<Rightarrow> True | _ \<Rightarrow> False)"

definition read_text :: "fs \<Rightarrow> string \<Rightarrow> py_exception + string" where
  "read_text t p =
     (case t p of
        Some (File c) \<Rightarrow> Inr c
      | Some Dir \<Rightarrow> Inl (IsADirectoryError p)
      | None \<Rightarrow> Inl (FileNotFoundError p))"

definition write_text :: "fs \<Rightarrow> string \<Rightarrow> string \<Rightarrow> py_exception + fs" where
  "write_text t p c =
     (case t p of
        Some Dir \<Rightarrow> Inl (IsADirectoryError p)
      | _ \<Rightarrow> Inr (t(p \<mapsto> File c)))"

definition is_dir :: "fs \<Rightarrow> string \<Rightarrow> bool" where
  "is_dir t p = (t p = Some Dir)"

text \<open>\<open>Path.parent\<close> of an absolute, normalised path, as \<open>resolve\<close> returns it.\<close>

definition path_parent :: "string \<Rightarrow> string" where
  "path_parent p =
     (let d = rev (tl (dropWhile (\<lambda>c. c \<noteq> CHR ''/'') (rev p)))
      in if d = [] then ''/'' else d)"

text \<open>
  \<open>mkdir(parents=True, exist_ok=True)\<close>: the directories of the chain (every prefix of the
  path that ends before a slash, then the path) are created where they are missing; a
  file in the way raises, and the directories made before it stay.
\<close>

definition dir_chain :: "string \<Rightarrow> string list" where
  "dir_chain d =
     map (\<lambda>n. take n d)
       (filter (\<lambda>n. n = length d \<or> d ! n = CHR ''/'') [1..<Suc (length d)])"

fun mkdir_chain :: "fs \<Rightarrow> string list \<Rightarrow> (py_exception + unit) \<times> fs" where
  "mkdir_chain t [] = (Inr (), t)"
| "mkdir_chain t (d # ds) =
     (case t d of
        Some (File c) \<Rightarrow>
          (Inl (if ds = [] then FileExistsError d else NotADirectoryError d), t)
      | Some Dir \<Rightarrow> mkdir_chain t ds
      | None \<Rightarrow> mkdir_chain (t(d \<mapsto> Dir)) ds)"

definition mkdir_parents :: "fs \<Rightarrow> string \<Rightarrow> (py_exception + unit) \<times> fs" where
  "mkdir_parents t d = mkdir_chain t (dir_chain d)"

text \<open>
  The text of the \<open>PermissionError\<close>, in three pieces around \<open>path\<close> and \<open>allowed_dir\<close>: in
  English, "path ... is outside the allowed directory ...".
\<close>

definition msg_outside_1 :: string where
  "msg_outside_1 = [CHR 0xE8, CHR 0xB7, CHR 0xAF, CHR 0xE5, CHR 0xBE, CHR 0x84] @ '' ''"

definition msg_outside_2 :: string where
  "msg_outside_2 = '' '' @ [CHR 0xE5, CHR 0x9C, CHR 0xA8, CHR 0xE5, CHR 0x85, CHR 0x81,
     CHR 0xE8, CHR 0xAE, CHR 0xB8, CHR 0xE7, CHR 0x9A, CHR 0x84, CHR 0xE7, CHR 0x9B, CHR 0xAE,
     CHR 0xE5, CHR 0xBD, CHR 0x95] @ '' ''"

definition msg_outside_3 :: string where
  "msg_outside_3 = '' '' @ [CHR 0xE4, CHR 0xB9, CHR 0x8B, CHR 0xE5, CHR 0xA4, CHR 0x96]"

text \<open>
  \<open>_resolve_path(path, allowed_dir)\<close>. A \<open>Path\<close> is always truthy, so \<open>if allowed_dir and ...\<close>
  only tests for \<open>None\<close>. The first parameter is \<open>Path(p).expanduser().resolve()\<close>, the
  second \<open>Path(p).resolve()\<close>, both as strings.
\<close>

definition resolve_path ::
  "(string \<Rightarrow> string) \<Rightarrow> (string \<Rightarrow> string) \<Rightarrow> string \<Rightarrow> string option
     \<Rightarrow> py_exception + string" where
  "resolve_path expand_resolve resolve path allowed_dir =
     (let resolved = expand_resolve path in
      case allowed_dir of
        None \<Rightarrow> Inr resolved
      | Some d \<Rightarrow>
          if \<not> py_startswith resolved (resolve d)
          then Inl (PermissionError (msg_outside_1 @ path @ msg_outside_2 @ d @ msg_outside_3))
          else Inr resolved)"

text \<open>
  The texts the tools return, in the order of the definitions: "Error:", "Error: file not
  found:", "Error: not a file:", "Error reading file:", "Error: old_text not found in
  file. Make sure it matches exactly.", "Warning: old_text appears" and "times. Please
  provide more context to make it unique." (around the count), "Successfully edited" and
  "Error editing file:".
\<close>

definition msg_error :: string where
  "msg_error = [CHR 0xE9, CHR 0x94, CHR 0x99, CHR 0xE8, CHR 0xAF, CHR 0xAF, CHR 0xEF, CHR 0xBC,
     CHR 0x9A]"

definition msg_file_not_found :: string where
  "msg_file_not_found = msg_error @ [CHR 0xE6, CHR 0x9C, CHR 0xAA, CHR 0xE6, CHR 0x89, CHR 0xBE,
     CHR 0xE5, CHR 0x88, CHR 0xB0, CHR 0xE6, CHR 0x96, CHR 0x87, CHR 0xE4, CHR 0xBB, CHR 0xB6,
     CHR 0xEF, CHR 0xBC, CHR 0x9A]"

definition msg_not_a_file :: string where
  "msg_not_a_file = msg_error @ [CHR 0xE4, CHR 0xB8, CHR 0x8D, CHR 0xE6, CHR 0x98, CHR 0xAF,
     CHR 0xE6, CHR 0x96, CHR 0x87, CHR 0xE4, CHR 0xBB, CHR 0xB6, CHR 0xEF, CHR 0xBC, CHR 0x9A]"

definition msg_read_failed :: string where
  "msg_read_failed = [CHR 0xE8, CHR 0xAF, CHR 0xBB, CHR 0xE5, CHR 0x8F, CHR 0x96, CHR 0xE6,
     CHR 0x96, CHR 0x87, CHR 0xE4, CHR 0xBB, CHR 0xB6, CHR 0xE6, CHR 0x97, CHR 0xB6, CHR 0xE5,
     CHR 0x87, CHR 0xBA, CHR 0xE9, CHR 0x94, CHR 0x99, CHR 0xEF, CHR 0xBC, CHR 0x9A]"

definition msg_old_text_missing :: string where
  "msg_old_text_missing = msg_error @ [CHR 0xE5, CHR 0x9C, CHR 0xA8, CHR 0xE6, CHR 0x96,
     CHR 0x87, CHR 0xE4, CHR 0xBB, CHR 0xB6, CHR 0xE4, CHR 0xB8, CHR 0xAD, CHR 0xE6, CHR 0x9C,
     CHR 0xAA, CHR 0xE6, CHR 0x89, CHR 0xBE, CHR 0xE5, CHR 0x88, CHR 0xB0] @ ''old_text'' @
     [CHR 0xE3, CHR 0x80, CHR 0x82, CHR 0xE8, CHR 0xAF, CHR 0xB7, CHR 0xE7, CHR 0xA1, CHR 0xAE,
      CHR 0xE4, CHR 0xBF, CHR 0x9D, CHR 0xE5, CHR 0xAE, CHR 0x83, CHR 0xE5, CHR 0xAE, CHR 0x8C,
      CHR 0xE5, CHR 0x85, CHR 0xA8, CHR 0xE5, CHR 0x8C, CHR 0xB9, CHR 0xE9, CHR 0x85, CHR 0x8D,
      CHR 0xE3, CHR 0x80, CHR 0x82]"

definition msg_ambiguous_1 :: string where
  "msg_ambiguous_1 = [CHR 0xE8, CHR 0xAD, CHR 0xA6, CHR 0xE5, CHR 0x91, CHR 0x8A, CHR 0xEF,
     CHR 0xBC, CHR 0x9A] @ ''old_text'' @ [CHR 0xE5, CHR 0x87, CHR 0xBA, CHR 0xE7, CHR 0x8E,
     CHR 0xB0, CHR 0xE4, CHR 0xBA, CHR 0x86]"

definition msg_ambiguous_2 :: string where
  "msg_ambiguous_2 = [CHR 0xE6, CHR 0xAC, CHR 0xA1, CHR 0xE3, CHR 0x80, CHR 0x82, CHR 0xE8,
     CHR 0xAF, CHR 0xB7, CHR 0xE6, CHR 0x8F, CHR 0x90, CHR 0xE4, CHR 0xBE, CHR 0x9B, CHR 0xE6,
     CHR 0x9B, CHR 0xB4, CHR 0xE5, CHR 0xA4, CHR 0x9A, CHR 0xE4, CHR 0xB8, CHR 0x8A, CHR 0xE4,
     CHR 0xB8, CHR 0x8B, CHR 0xE6, CHR 0x96, CHR 0x87, CHR 0xE4, CHR 0xBD, CHR 0xBF, CHR 0xE5,
     CHR 0x85, CHR 0xB6, CHR 0xE5, CHR 0x94, CHR 0xAF, CHR 0xE4, CHR 0xB8, CHR 0x80, CHR 0xE3,
     CHR 0x80, CHR 0x82]"

definition msg_edited :: string where
  "msg_edited = [CHR 0xE6, CHR 0x88, CHR 0x90, CHR 0xE5, CHR 0x8A, CHR 0x9F, CHR 0xE7, CHR 0xBC,
     CHR 0x96, CHR 0xE8, CHR 0xBE, CHR 0x91, CHR 0xE4, CHR 0xBA, CHR 0x86]"

definition msg_edit_failed :: string where
  "msg_edit_failed = [CHR 0xE7, CHR 0xBC, CHR 0x96, CHR 0xE8, CHR 0xBE, CHR 0x91, CHR 0xE6,
     CHR 0x96, CHR 0x87, CHR 0xE4, CHR 0xBB, CHR 0xB6, CHR 0xE6, CHR 0x97, CHR 0xB6, CHR 0xE5,
     CHR 0x87, CHR 0xBA, CHR 0xE9, CHR 0x94, CHR 0x99, CHR 0xEF, CHR 0xBC, CHR 0x9A]"

text \<open>
  \<open>ReadFileTool.execute\<close>: the body of the \<open>try\<close> first, then the two handlers. The result is
  \<open>Inl\<close> when an exception leaves \<open>execute\<close> and \<open>Inr\<close> when it returns a string.
\<close>

definition ReadFileTool_body ::
  "(string \<Rightarrow> string) \<Rightarrow> (string \<Rightarrow> string) \<Rightarrow> string option \<Rightarrow> fs \<Rightarrow> string
     \<Rightarrow> py_exception + string" where
  "ReadFileTool_body expand_resolve resolve allowed_dir t path =
     (case resolve_path expand_resolve resolve path allowed_dir of
        Inl e \<Rightarrow> Inl e
      | Inr file_path \<Rightarrow>
          if \<not> path_exists t file_path then Inr (msg_file_not_found @ path)
          else if \<not> is_file t file_path then Inr (msg_not_a_file @ path)
          else read_text t file_path)"

definition ReadFileTool_execute ::
  "(string \<Rightarrow> string) \<Rightarrow> (string \<Rightarrow> string) \<Rightarrow> string option \<Rightarrow> fs \<Rightarrow> string
     \<Rightarrow> py_exception + string" where
  "ReadFileTool_execute expand_resolve resolve allowed_dir t path =
     (case ReadFileTool_body expand_resolve resolve allowed_dir t path of
        Inr r \<Rightarrow> Inr r
      | Inl (PermissionError m) \<Rightarrow> Inr (msg_error @ m)
      | Inl e \<Rightarrow> Inr (msg_read_failed @ str_of_exception e))"

text \<open>
  \<open>EditFileTool.execute\<close> returns its string and the file tree it leaves behind. An
  exception inside the \<open>try\<close> leaves the tree as it was when the exception was raised;
  the only write is the last statement before the \<open>return\<close>.
\<close>

definition EditFileTool_body ::
  "(string \<Rightarrow> string) \<Rightarrow> (string \<Rightarrow> string) \<Rightarrow> string option \<Rightarrow> fs \<Rightarrow> string
     \<Rightarrow> string \<Rightarrow> string \<Rightarrow> (py_exception + string) \<times> fs" where
  "EditFileTool_body expand_resolve resolve allowed_dir t path old_text new_text =
     (case resolve_path expand_resolve resolve path allowed_dir of
        Inl e \<Rightarrow> (Inl e, t)
      | Inr file_path \<Rightarrow>
          if \<not> path_exists t file_path then (Inr (msg_file_not_found @ path), t)
          else
            (case read_text t file_path of
               Inl e \<Rightarrow> (Inl e, t)
             | Inr content \<Rightarrow>
                 if \<not> py_in old_text content then (Inr msg_old_text_missing, t)
                 else
                   (let count = py_count old_text content in
                    if count > 1
                    then (Inr (msg_ambiguous_1 @ str_of_nat count @ msg_ambiguous_2), t)
                    else
                      (let new_content = py_replace1 old_text new_text content in
                       case write_text t file_path new_content of
                         Inl e \<Rightarrow> (Inl e, t)
                       | Inr t' \<Rightarrow> (Inr (msg_edited @ path), t')))))"

definition EditFileTool_execute ::
  "(string \<Rightarrow> string) \<Rightarrow> (string \<Rightarrow> string) \<Rightarrow> string option \<Rightarrow> fs \<Rightarrow> string
     \<Rightarrow> string \<Rightarrow> string \<Rightarrow> (py_exception + string) \<times> fs" where
  "EditFileTool_execute expand_resolve resolve allowed_dir t path old_text new_text =
     (case EditFileTool_body expand_resolve resolve allowed_dir t path old_text new_text of
        (Inr r, t') \<Rightarrow> (Inr r, t')
      | (Inl (PermissionError m), t') \<Rightarrow> (Inr (msg_error @ m), t')
      | (Inl e, t') \<Rightarrow> (Inr (msg_edit_failed @ str_of_exception e), t'))"

text \<open>
  The texts of the write and list tools: "Successfully wrote" and "bytes to" (around the
  length), "Error writing file:", "Error: directory not found:", "Error: not a directory:",
  and the folder and page signs that mark the entries of a listing.
\<close>

definition msg_written_1 :: string where
  "msg_written_1 =
     [CHR 0xE6, CHR 0x88, CHR 0x90, CHR 0xE5, CHR 0x8A, CHR 0x9F, CHR 0xE5, CHR 0x86,
     CHR 0x99, CHR 0xE5, CHR 0x85, CHR 0xA5] @ '' ''"

definition msg_written_2 :: string where
  "msg_written_2 =
     '' '' @ [CHR 0xE5, CHR 0xAD, CHR 0x97, CHR 0xE8, CHR 0x8A, CHR 0x82, CHR 0xE5,
     CHR 0x88, CHR 0xB0] @ '' ''"

definition msg_write_failed :: string where
  "msg_write_failed =
     [CHR 0xE5, CHR 0x86, CHR 0x99, CHR 0xE5, CHR 0x85, CHR 0xA5, CHR 0xE6, CHR 0x96,
     CHR 0x87, CHR 0xE4, CHR 0xBB, CHR 0xB6, CHR 0xE6, CHR 0x97, CHR 0xB6, CHR 0xE5,
     CHR 0x87, CHR 0xBA, CHR 0xE9, CHR 0x94, CHR 0x99, CHR 0xEF, CHR 0xBC, CHR 0x9A]"

definition msg_dir_not_found :: string where
  "msg_dir_not_found =
     [CHR 0xE9, CHR 0x94, CHR 0x99, CHR 0xE8, CHR 0xAF, CHR 0xAF, CHR 0xEF, CHR 0xBC,
     CHR 0x9A, CHR 0xE6, CHR 0x9C, CHR 0xAA, CHR 0xE6, CHR 0x89, CHR 0xBE, CHR 0xE5,
     CHR 0x88, CHR 0xB0, CHR 0xE7, CHR 0x9B, CHR 0xAE, CHR 0xE5, CHR 0xBD, CHR 0x95,
     CHR 0xEF, CHR 0xBC, CHR 0x9A]"

definition msg_not_a_dir :: string where
  "msg_not_a_dir =
     [CHR 0xE9, CHR 0x94, CHR 0x99, CHR 0xE8, CHR 0xAF, CHR 0xAF, CHR 0xEF, CHR 0xBC,
     CHR 0x9A, CHR 0xE4, CHR 0xB8, CHR 0x8D, CHR 0xE6, CHR 0x98, CHR 0xAF, CHR 0xE7,
     CHR 0x9B, CHR 0xAE, CHR 0xE5, CHR 0xBD, CHR 0x95, CHR 0xEF, CHR 0xBC, CHR 0x9A]"

definition prefix_dir :: string where
  "prefix_dir =
     [CHR 0xF0, CHR 0x9F, CHR 0x93, CHR 0x81] @ '' ''"

definition prefix_file :: string where
  "prefix_file =
     [CHR 0xF0, CHR 0x9F, CHR 0x93, CHR 0x84] @ '' ''"

text \<open>\<open>WriteFileTool.execute\<close>.\<close>

definition WriteFileTool_body ::
  "(string \<Rightarrow> string) \<Rightarrow> (string \<Rightarrow> string) \<Rightarrow> string option \<Rightarrow> fs \<Rightarrow> string
     \<Rightarrow> string \<Rightarrow> (py_exception + string) \<times> fs" where
  "WriteFileTool_body expand_resolve resolve allowed_dir t path text_arg =
     (case resolve_path expand_resolve resolve path allowed_dir of
        Inl e \<Rightarrow> (Inl e, t)
      | Inr file_path \<Rightarrow>
          (case mkdir_parents t (path_parent file_path) of
             (Inl e, t1) \<Rightarrow> (Inl e, t1)
           | (Inr u, t1) \<Rightarrow>
               (case write_text t1 file_path text_arg of
                  Inl e \<Rightarrow> (Inl e, t1)
                | Inr t2 \<Rightarrow>
                    (Inr (msg_written_1 @ str_of_nat (length text_arg) @ msg_written_2 @ path),
                     t2))))"

definition WriteFileTool_execute ::
  "(string \<Rightarrow> string) \<Rightarrow> (string \<Rightarrow> string) \<Rightarrow> string option \<Rightarrow> fs \<Rightarrow> string
     \<Rightarrow> string \<Rightarrow> (py_exception + string) \<times> fs" where
  "WriteFileTool_execute expand_resolve resolve allowed_dir t path text_arg =
     (case WriteFileTool_body expand_resolve resolve allowed_dir t path text_arg of
        (Inr r, t') \<Rightarrow> (Inr r, t')
      | (Inl (PermissionError m), t') \<Rightarrow> (Inr (msg_error @ m), t')
      | (Inl e, t') \<Rightarrow> (Inr (msg_write_failed @ str_of_exception e), t'))"

text \<open>
  \<open>ListDirTool.execute\<close>. The third parameter is \<open>sorted(dir_path.iterdir())\<close>: the paths of
  the entries of a directory in order, or the exception the operating system raises.
\<close>

definition ListDirTool_body ::
  "(string \<Rightarrow> string) \<Rightarrow> (string \<Rightarrow> string) \<Rightarrow> (string \<Rightarrow> py_exception + string list)
     \<Rightarrow> string option \<Rightarrow> fs \<Rightarrow> string \<Rightarrow> py_exception + string" where
  "ListDirTool_body expand_resolve resolve sorted_iterdir allowed_dir t path =
     (case resolve_path expand_resolve resolve path allowed_dir of
        Inl e \<Rightarrow> Inl e
      | Inr dir_path \<Rightarrow>
          if \<not> path_exists t dir_path then Inr (msg_dir_not_found @ path)
          else if \<not> is_dir t dir_path then Inr (msg_not_a_dir @ path)
          else
            (case sorted_iterdir dir_path of
               Inl e \<Rightarrow> Inl e
             | Inr entries \<Rightarrow>
                 (let items = map (\<lambda>item. (if is_dir t item then prefix_dir else prefix_file) @
                                         last_segment item) entries
                  in if items = [] then Inr (''Directory '' @ path @ '' is empty'')
                     else Inr (py_join [CHR 0x0A] items))))"

definition ListDirTool_execute ::
  "(string \<Rightarrow> string) \<Rightarrow> (string \<Rightarrow> string) \<Rightarrow> (string \<Rightarrow> py_exception + string list)
     \<Rightarrow> string option \<Rightarrow> fs \<Rightarrow> string \<Rightarrow> py_exception + string" where
  "ListDirTool_execute expand_resolve resolve sorted_iterdir allowed_dir t path =
     (case ListDirTool_body expand_resolve resolve sorted_iterdir allowed_dir t path of
        Inr r \<Rightarrow> Inr r
      | Inl (PermissionError m) \<Rightarrow> Inr (''Error: '' @ m)
      | Inl e \<Rightarrow> Inr (''Error listing directory: '' @ str_of_exception e))"

section \<open>Bus events and the message bus (bus/queue.py)\<close>

text \<open>
  Modelled from the spec: \<open>InboundMessage\<close> and \<open>OutboundMessage\<close> (bus/events.py is not
  under src/). Section 3: an inbound message is "{channel, sender_id, chat_id, content,
  media, session_key: derived as \<open>channel:chat_id\<close> unless overridden}", an outbound one
  "{channel, chat_id, content}".
\<close>

record inbound_message =
  channel :: string
  sender_id :: string
  chat_id :: string
  content :: string
  media :: "string list"
  session_key_override :: "string option"

definition session_key :: "inbound_message \<Rightarrow> string" where
  "session_key m =
     (case session_key_override m of
        Some k \<Rightarrow> k
      | None \<Rightarrow> channel m @ '':'' @ chat_id m)"

record outbound_message =
  out_channel :: string
  out_chat_id :: string
  out_content :: string

text \<open>
  \<open>MessageBus\<close>: two unbounded FIFO queues and the table of subscribers. A callback acts
  on the world of the channel adapters and may raise.
\<close>

type_synonym 'w callback = "outbound_message \<Rightarrow> 'w \<Rightarrow> (py_exception + unit) \<times> 'w"

record 'w message_bus =
  inbound :: "inbound_message list"
  outbound :: "outbound_message list"
  outbound_subscribers :: "string \<Rightarrow> 'w callback list option"


definition publish_outbound :: "'w message_bus \<Rightarrow> outbound_message \<Rightarrow> 'w message_bus" where
  "publish_outbound bus m = bus\<lparr>outbound := outbound bus @ [m]\<rparr>"

definition subscribe_outbound ::
  "'w message_bus \<Rightarrow> string \<Rightarrow> 'w callback \<Rightarrow> 'w message_bus" where
  "subscribe_outbound bus ch cb =
     bus\<lparr>outbound_subscribers :=
       (outbound_subscribers bus)
         (ch \<mapsto> (case outbound_subscribers bus ch of None \<Rightarrow> [] | Some cbs \<Rightarrow> cbs) @ [cb])\<rparr>"

text \<open>
  The \<open>for callback in subscribers\<close> loop: an exception of a callback is logged and the
  loop goes on. The result is the world, the exceptions logged and the number of calls.
\<close>

fun deliver ::
  "'w callback list \<Rightarrow> outbound_message \<Rightarrow> 'w \<Rightarrow> py_exception list \<Rightarrow> nat
     \<Rightarrow> 'w \<times> py_exception list \<times> nat" where
  "deliver [] m w logged calls = (w, logged, calls)"
| "deliver (cb # cbs) m w logged calls =
     (case cb m w of
        (Inl e, w') \<Rightarrow> deliver cbs m w' (logged @ [e]) (Suc calls)
      | (Inr u, w') \<Rightarrow> deliver cbs m w' logged (Suc calls))"

text \<open>
  One round of the \<open>while self._running\<close> loop of \<open>dispatch_outbound\<close>. On an empty queue
  \<open>wait_for\<close> times out and the round does nothing.
\<close>

definition dispatch_round ::
  "'w message_bus \<Rightarrow> 'w \<Rightarrow> py_exception list \<Rightarrow> nat
     \<Rightarrow> 'w message_bus \<times> 'w \<times> py_exception list \<times> nat" where
  "dispatch_round bus w logged calls =
     (case outbound bus of
        [] \<Rightarrow> (bus, w, logged, calls)
      | m # rest \<Rightarrow>
          (let subscribers =
                 (case outbound_subscribers bus (out_channel m) of
                    None \<Rightarrow> []
                  | Some cbs \<Rightarrow> cbs)
           in (bus\<lparr>outbound := rest\<rparr>, deliver subscribers m w logged calls)))"

text \<open>The loop, for the number of rounds it runs before it sees the flag cleared.\<close>

fun dispatch_outbound ::
  "nat \<Rightarrow> 'w message_bus \<Rightarrow> 'w \<Rightarrow> py_exception list \<Rightarrow> nat
     \<Rightarrow> 'w message_bus \<times> 'w \<times> py_exception list \<times> nat" where
  "dispatch_outbound 0 bus w logged calls = (bus, w, logged, calls)"
| "dispatch_outbound (Suc n) bus w logged calls =
     (case dispatch_round bus w logged calls of
        (bus', w', logged', calls') \<Rightarrow> dispatch_outbound n bus' w' logged' calls')"

section \<open>The LLM provider (providers/litellm_provider.py)\<close>

text \<open>
  Modelled from the spec: \<open>LLMResponse\<close> and \<open>ToolCallRequest\<close> (providers/base.py is not
  under src/). Section 6: a response is "{content: string|null, tool_calls: ordered
  sequence of ToolCallRequest, finish_reason, reasoning_content: string|null}"; section 3:
  a request is "{id, name, arguments}". A response "carries tool calls" when the sequence
  is not empty. The fields that \<open>chat\<close> does not pass (\<open>tool_calls\<close>, \<open>usage\<close>,
  \<open>reasoning_content\<close>) take the empty defaults.
\<close>

record tool_call_request =
  tc_id :: string
  tc_name :: string
  tc_arguments :: json

record llm_response =
  resp_content :: "string option"
  tool_calls :: "tool_call_request list"
  finish_reason :: string
  usage :: "(string \<times> int) list"
  reasoning_content :: "string option"

definition has_tool_calls :: "llm_response \<Rightarrow> bool" where
  "has_tool_calls r = (tool_calls r \<noteq> [])"

definition LLMResponse :: "string option \<Rightarrow> string \<Rightarrow> llm_response" where
  "LLMResponse c fr =
     \<lparr>resp_content = c, tool_calls = [], finish_reason = fr, usage = [],
      reasoning_content = None\<rparr>"

text \<open>The entries of the conversation list handed to the provider.\<close>

datatype user_content = Text string | ImagesAndText "string list" string

datatype tool_call_dict = ToolCallDict string string string

datatype chat_message =
    SystemMessage string
  | HistoryMessage string string
  | UserMessage user_content
  | AssistantMessage string "tool_call_dict list option" "string option"
  | ToolMessage string string string




text \<open>
  \<open>ProviderSpec\<close> is declared in providers/registry.py (not under src/); the record has
  the fields \<open>chat\<close> reads. The values of the keyword arguments:
\<close>

datatype kwarg =
    KStr string
  | KInt int
  | KFloat real
  | KMessages "chat_message list"
  | KTools "json list"
  | KHeaders "(string \<times> string) list"
  | KJson json















section \<open>Context builder (agent/context.py)\<close>

text \<open>
  The collaborators of a turn, over one state of the outside world: the provider (its
  \<open>chat\<close>, which may raise as any call may), the tool registries' \<open>execute\<close> (of the primary
  registry, which sees the addressing context set on the shared tools, and of a
  subagent's own registry), \<open>json.dumps\<close>, the system prompt that \<open>build_system_prompt\<close>
  assembles from files, and the encoding of attached images.
\<close>

record 's collaborators =
  provider_chat :: "chat_message list \<Rightarrow> 's \<Rightarrow> (py_exception + llm_response) \<times> 's"
  tools_execute ::
    "(string \<times> string) option \<Rightarrow> string \<Rightarrow> json \<Rightarrow> 's \<Rightarrow> (py_exception + string) \<times> 's"
  subagent_tools_execute :: "string \<Rightarrow> json \<Rightarrow> 's \<Rightarrow> (py_exception + string) \<times> 's"
  json_dumps :: "json \<Rightarrow> string"
  build_system_prompt :: string
  encode_images :: "string list \<Rightarrow> string list"

text \<open>
  The two headings that \<open>build_messages\<close> adds to the system prompt: a "current session"
  title with "channel:", and "chat ID:".
\<close>

definition session_header_1 :: string where
  "session_header_1 =
     [CHR 0x0A, CHR 0x0A] @ ''## '' @ [CHR 0xE5, CHR 0xBD, CHR 0x93, CHR 0xE5, CHR 0x89,
     CHR 0x8D, CHR 0xE4, CHR 0xBC, CHR 0x9A, CHR 0xE8, CHR 0xAF, CHR 0x9D, CHR 0x0A,
     CHR 0xE6, CHR 0xB8, CHR 0xA0, CHR 0xE9, CHR 0x81, CHR 0x93, CHR 0xEF, CHR 0xBC,
     CHR 0x9A]"

definition session_header_2 :: string where
  "session_header_2 =
     [CHR 0x0A, CHR 0xE8, CHR 0x81, CHR 0x8A, CHR 0xE5, CHR 0xA4, CHR 0xA9] @ ''ID'' @
     [CHR 0xEF, CHR 0xBC, CHR 0x9A]"

definition build_user_content :: "'s collaborators \<Rightarrow> string \<Rightarrow> string list \<Rightarrow> user_content" where
  "build_user_content env text_arg media_arg =
     (if media_arg = [] then Text text_arg
      else (let images = encode_images env media_arg
            in if images = [] then Text text_arg else ImagesAndText images text_arg))"

definition build_messages ::
  "'s collaborators \<Rightarrow> chat_message list \<Rightarrow> string \<Rightarrow> string list \<Rightarrow> string \<Rightarrow> string
     \<Rightarrow> chat_message list" where
  "build_messages env hist current_message media_arg ch cid =
     (let system_prompt =
            (if ch \<noteq> [] \<and> cid \<noteq> []
             then build_system_prompt env @ session_header_1 @ ch @ session_header_2 @ cid
             else build_system_prompt env)
      in [SystemMessage system_prompt] @ hist @
         [UserMessage (build_user_content env current_message media_arg)])"

definition add_tool_result ::
  "chat_message list \<Rightarrow> string \<Rightarrow> string \<Rightarrow> string \<Rightarrow> chat_message list" where
  "add_tool_result messages tool_call_id tool_name result =
     messages @ [ToolMessage tool_call_id tool_name result]"

definition add_assistant_message ::
  "chat_message list \<Rightarrow> string option \<Rightarrow> tool_call_dict list \<Rightarrow> string option
     \<Rightarrow> chat_message list" where
  "add_assistant_message messages c tcs reasoning =
     messages @
     [AssistantMessage (case c of None \<Rightarrow> [] | Some t \<Rightarrow> t)
        (if tcs \<noteq> [] then Some tcs else None)
        (case reasoning of None \<Rightarrow> None | Some r \<Rightarrow> if r \<noteq> [] then Some r else None)]"

section \<open>Sessions\<close>

text \<open>
  Modelled from the spec: \<open>Session\<close> and \<open>SessionManager\<close> (session/manager.py is not under
  src/). Section 3: a session is "{key, history: ordered sequence of {role, content}
  entries}"; section 6: "\<open>get_or_create(session_key) -> Session\<close>, \<open>save(Session) -> void\<close>".
  \<open>add_message\<close> appends one entry; \<open>get_history\<close> is the snapshot of the entries.
\<close>

record session_entry =
  role :: string
  entry_content :: string

record session =
  session_id :: string
  entries :: "session_entry list"

type_synonym session_store = "string \<Rightarrow> session_entry list option"

definition history_of :: "session_store \<Rightarrow> string \<Rightarrow> session_entry list" where
  "history_of store k = (case store k of None \<Rightarrow> [] | Some h \<Rightarrow> h)"

definition get_or_create :: "session_store \<Rightarrow> string \<Rightarrow> session" where
  "get_or_create store k = \<lparr>session_id = k, entries = history_of store k\<rparr>"

definition add_message :: "session \<Rightarrow> string \<Rightarrow> string \<Rightarrow> session" where
  "add_message sess r c = sess\<lparr>entries := entries sess @ [\<lparr>role = r, entry_content = c\<rparr>]\<rparr>"

definition get_history :: "session \<Rightarrow> chat_message list" where
  "get_history sess = map (\<lambda>e. HistoryMessage (role e) (entry_content e)) (entries sess)"

definition save :: "session_store \<Rightarrow> session \<Rightarrow> session_store" where
  "save store sess = store(session_id sess \<mapsto> entries sess)"

section \<open>Tool registries\<close>

text \<open>
  The tool objects that \<open>AgentLoop._register_default_tools\<close> and
  \<open>SubagentManager._run_subagent\<close> construct, each with the constructor arguments the
  source passes. \<open>ToolRegistry\<close> and the classes of the shell, web, message, spawn and
  cron tools are not under src/: a registry is kept as the sequence of the tools passed
  to \<open>register\<close>, in the order of the calls.
\<close>

datatype tool =
    ReadFileTool "string option"
  | WriteFileTool "string option"
  | EditFileTool "string option"
  | ListDirTool "string option"
  | ExecTool string int bool
  | WebSearchTool "string option"
  | WebFetchTool
  | MessageTool
  | SpawnTool
  | CronTool

record agent_config =
  workspace :: string
  max_iterations :: int
  restrict_to_workspace :: bool
  exec_timeout :: int
  brave_api_key :: "string option"
  cron_service :: bool

definition register_default_tools :: "agent_config \<Rightarrow> tool list" where
  "register_default_tools cfg =
     (let allowed_dir = (if restrict_to_workspace cfg then Some (workspace cfg) else None)
      in [ReadFileTool allowed_dir, WriteFileTool allowed_dir, EditFileTool allowed_dir,
          ListDirTool allowed_dir,
          ExecTool (workspace cfg) (exec_timeout cfg) (restrict_to_workspace cfg),
          WebSearchTool (brave_api_key cfg), WebFetchTool, MessageTool, SpawnTool] @
         (if cron_service cfg then [CronTool] else []))"

text \<open>\<open>SubagentManager\<close>, and the one that \<open>AgentLoop.__init__\<close> constructs.\<close>

record subagent_manager =
  sm_workspace :: string
  sm_restrict_to_workspace :: bool
  sm_exec_timeout :: int
  sm_brave_api_key :: "string option"

definition subagents_of :: "agent_config \<Rightarrow> subagent_manager" where
  "subagents_of cfg =
     \<lparr>sm_workspace = workspace cfg, sm_restrict_to_workspace = restrict_to_workspace cfg,
      sm_exec_timeout = exec_timeout cfg, sm_brave_api_key = brave_api_key cfg\<rparr>"

definition subagent_tools :: "subagent_manager \<Rightarrow> tool list" where
  "subagent_tools mgr =
     (let allowed_dir = (if sm_restrict_to_workspace mgr then Some (sm_workspace mgr) else None)
      in [ReadFileTool allowed_dir, WriteFileTool allowed_dir, ListDirTool allowed_dir,
          ExecTool (sm_workspace mgr) (sm_exec_timeout mgr) (sm_restrict_to_workspace mgr),
          WebSearchTool (sm_brave_api_key mgr), WebFetchTool])"

text \<open>The allowed directory of the primary registry, and the kinds of tools.\<close>

definition allowed_dir_of :: "agent_config \<Rightarrow> string option" where
  "allowed_dir_of cfg = (if restrict_to_workspace cfg then Some (workspace cfg) else None)"

fun is_filesystem_tool :: "tool \<Rightarrow> bool" where
  "is_filesystem_tool (ReadFileTool a) = True"
| "is_filesystem_tool (WriteFileTool a) = True"
| "is_filesystem_tool (EditFileTool a) = True"
| "is_filesystem_tool (ListDirTool a) = True"
| "is_filesystem_tool t = False"

fun is_shell_tool :: "tool \<Rightarrow> bool" where
  "is_shell_tool (ExecTool d t r) = True"
| "is_shell_tool t = False"

fun is_web_tool :: "tool \<Rightarrow> bool" where
  "is_web_tool (WebSearchTool k) = True"
| "is_web_tool WebFetchTool = True"
| "is_web_tool t = False"

section \<open>The agent loop (agent/loop.py)\<close>

definition tool_call_dicts :: "'s collaborators \<Rightarrow> tool_call_request list \<Rightarrow> tool_call_dict list" where
  "tool_call_dicts env tcs =
     map (\<lambda>tc. ToolCallDict (tc_id tc) (tc_name tc) (json_dumps env (tc_arguments tc))) tcs"

text \<open>The \<open>for tool_call in response.tool_calls\<close> loop of the primary registry.\<close>

fun execute_tool_calls ::
  "'s collaborators \<Rightarrow> (string \<times> string) option \<Rightarrow> tool_call_request list
     \<Rightarrow> chat_message list \<Rightarrow> 's \<Rightarrow> (py_exception + chat_message list) \<times> 's" where
  "execute_tool_calls env ctx [] messages s = (Inr messages, s)"
| "execute_tool_calls env ctx (tc # rest) messages s =
     (case tools_execute env ctx (tc_name tc) (tc_arguments tc) s of
        (Inl e, s') \<Rightarrow> (Inl e, s')
      | (Inr result, s') \<Rightarrow>
          execute_tool_calls env ctx rest
            (add_tool_result messages (tc_id tc) (tc_name tc) result) s')"

text \<open>
  One pass through the body of the \<open>while\<close> loop (after \<open>iteration += 1\<close>): an exception
  leaves the loop, a response without tool calls gives \<open>final_content\<close> and breaks, tool
  calls extend the message list.
\<close>

datatype step_result =
    Raise py_exception
  | Break "string option"
  | Continue "chat_message list"

definition turn_step ::
  "'s collaborators \<Rightarrow> (string \<times> string) option \<Rightarrow> chat_message list \<Rightarrow> 's
     \<Rightarrow> step_result \<times> 's" where
  "turn_step env ctx messages s =
     (case provider_chat env messages s of
        (Inl e, s1) \<Rightarrow> (Raise e, s1)
      | (Inr response, s1) \<Rightarrow>
          if has_tool_calls response then
            (case execute_tool_calls env ctx (tool_calls response)
                    (add_assistant_message messages (resp_content response)
                       (tool_call_dicts env (tool_calls response))
                       (reasoning_content response)) s1 of
               (Inl e, s2) \<Rightarrow> (Raise e, s2)
             | (Inr messages', s2) \<Rightarrow> (Continue messages', s2))
          else (Break (resp_content response), s1))"

text \<open>
  The \<open>while iteration < self.max_iterations\<close> loop of \<open>_process_message\<close> (lines 188-231);
  the loop of \<open>_process_system_message\<close> (lines 296-334) is the same text. The result is
  \<open>final_content\<close> and the value of \<open>iteration\<close> when the loop ends.
\<close>

function turn_loop ::
  "'s collaborators \<Rightarrow> (string \<times> string) option \<Rightarrow> int \<Rightarrow> int \<Rightarrow> chat_message list \<Rightarrow> 's
     \<Rightarrow> (py_exception + string option \<times> int) \<times> 's" where
  "turn_loop env ctx max_iter iteration messages s =
     (if iteration < max_iter then
        (case turn_step env ctx messages s of
           (Raise e, s') \<Rightarrow> (Inl e, s')
         | (Break final_content, s') \<Rightarrow> (Inr (final_content, iteration + 1), s')
         | (Continue messages', s') \<Rightarrow> turn_loop env ctx max_iter (iteration + 1) messages' s')
      else (Inr (None, iteration), s))"
  by pat_completeness auto
termination
  by (relation "measure (\<lambda>(env, ctx, max_iter, iteration, messages, s). nat (max_iter - iteration))")
    auto

declare turn_loop.simps [simp del]

text \<open>
  The fallback texts: "I have finished processing but have no response to provide." for
  a primary turn, and the English text of the source for a system message.
\<close>

definition primary_fallback :: string where
  "primary_fallback =
     [CHR 0xE6, CHR 0x88, CHR 0x91, CHR 0xE5, CHR 0xB7, CHR 0xB2, CHR 0xE7, CHR 0xBB,
     CHR 0x8F, CHR 0xE5, CHR 0xAE, CHR 0x8C, CHR 0xE6, CHR 0x88, CHR 0x90, CHR 0xE5,
     CHR 0xA4, CHR 0x84, CHR 0xE7, CHR 0x90, CHR 0x86, CHR 0xE4, CHR 0xBD, CHR 0x86,
     CHR 0xE6, CHR 0xB2, CHR 0xA1, CHR 0xE6, CHR 0x9C, CHR 0x89, CHR 0xE5, CHR 0x93,
     CHR 0x8D, CHR 0xE5, CHR 0xBA, CHR 0x94, CHR 0xE5, CHR 0x8F, CHR 0xAF, CHR 0xE4,
     CHR 0xBB, CHR 0xA5, CHR 0xE6, CHR 0x8F, CHR 0x90, CHR 0xE4, CHR 0xBE, CHR 0x9B,
     CHR 0xE3, CHR 0x80, CHR 0x82]"

definition system_fallback :: string where
  "system_fallback = ''Background task completed.''"

text \<open>
  The agent's own state: the session store, and the addressing context that
  \<open>set_context\<close> writes on the shared message, spawn and cron tools.
\<close>

record agent_state =
  sessions :: session_store
  tool_context :: "(string \<times> string) option"

text \<open>
  The origin that \<open>_process_system_message\<close> reads from \<open>chat_id\<close> (lines 260-268): the
  split at the first colon, or channel \<open>cli\<close> with the chat_id as it is.
\<close>

definition parse_origin :: "string \<Rightarrow> string \<times> string" where
  "parse_origin cid =
     (if CHR '':'' \<in> set cid then py_split1 CHR '':'' cid else (''cli'', cid))"

text \<open>
  \<open>_process_system_message\<close>. The result is the exception that leaves the method or the
  \<open>OutboundMessage\<close> it returns, the agent's state and the world.
\<close>

definition process_system_message ::
  "'s collaborators \<Rightarrow> agent_config \<Rightarrow> agent_state \<Rightarrow> inbound_message \<Rightarrow> 's
     \<Rightarrow> (py_exception + outbound_message) \<times> agent_state \<times> 's" where
  "process_system_message env cfg st m s =
     (case parse_origin (chat_id m) of
        (origin_channel, origin_chat_id) \<Rightarrow>
          (let sess = get_or_create (sessions st) (origin_channel @ '':'' @ origin_chat_id);
               st1 = st\<lparr>tool_context := Some (origin_channel, origin_chat_id)\<rparr>;
               messages = build_messages env (get_history sess) (content m) []
                            origin_channel origin_chat_id
           in case turn_loop env (tool_context st1) (max_iterations cfg) 0 messages s of
                (Inl e, s') \<Rightarrow> (Inl e, st1, s')
              | (Inr (final, iteration), s') \<Rightarrow>
                  (let final_content = (case final of None \<Rightarrow> system_fallback | Some c \<Rightarrow> c);
                       sess1 = add_message sess ''user''
                                 (''[System: '' @ sender_id m @ ''] '' @ content m);
                       sess2 = add_message sess1 ''assistant'' final_content
                   in (Inr \<lparr>out_channel = origin_channel, out_chat_id = origin_chat_id,
                            out_content = final_content\<rparr>,
                       st1\<lparr>sessions := save (sessions st1) sess2\<rparr>, s'))))"

text \<open>\<open>_process_message\<close>.\<close>

definition process_message ::
  "'s collaborators \<Rightarrow> agent_config \<Rightarrow> agent_state \<Rightarrow> inbound_message \<Rightarrow> 's
     \<Rightarrow> (py_exception + outbound_message) \<times> agent_state \<times> 's" where
  "process_message env cfg st m s =
     (if channel m = ''system'' then process_system_message env cfg st m s
      else
        (let sess = get_or_create (sessions st) (session_key m);
             st1 = st\<lparr>tool_context := Some (channel m, chat_id m)\<rparr>;
             messages = build_messages env (get_history sess) (content m) (media m)
                          (channel m) (chat_id m)
         in case turn_loop env (tool_context st1) (max_iterations cfg) 0 messages s of
              (Inl e, s') \<Rightarrow> (Inl e, st1, s')
            | (Inr (final, iteration), s') \<Rightarrow>
                (let final_content = (case final of None \<Rightarrow> primary_fallback | Some c \<Rightarrow> c);
                     sess1 = add_message sess ''user'' (content m);
                     sess2 = add_message sess1 ''assistant'' final_content
                 in (Inr \<lparr>out_channel = channel m, out_chat_id = chat_id m,
                          out_content = final_content\<rparr>,
                     st1\<lparr>sessions := save (sessions st1) sess2\<rparr>, s'))))"

text \<open>
  For a provider that answers its calls with the responses \<open>resp 0\<close>, \<open>resp 1\<close>, ...: the
  first response without tool calls among the \<open>b\<close> responses from \<open>resp k\<close> on.
\<close>

fun first_plain :: "(nat \<Rightarrow> llm_response) \<Rightarrow> nat \<Rightarrow> nat \<Rightarrow> nat option" where
  "first_plain resp k 0 = None"
| "first_plain resp k (Suc b) =
     (if has_tool_calls (resp k) then first_plain resp (Suc k) b else Some k)"

text \<open>
  What a turn is about, for either kind of message: the session it reads and extends, the
  text of the user entry, the fallback text, the origin it answers to and the message
  list it starts from.
\<close>

definition turn_session_key :: "inbound_message \<Rightarrow> string" where
  "turn_session_key m =
     (if channel m = ''system''
      then (case parse_origin (chat_id m) of (oc, oid) \<Rightarrow> oc @ '':'' @ oid)
      else session_key m)"

definition turn_user_text :: "inbound_message \<Rightarrow> string" where
  "turn_user_text m =
     (if channel m = ''system'' then ''[System: '' @ sender_id m @ ''] '' @ content m
      else content m)"

definition turn_fallback :: "inbound_message \<Rightarrow> string" where
  "turn_fallback m = (if channel m = ''system'' then system_fallback else primary_fallback)"

definition turn_origin :: "inbound_message \<Rightarrow> string \<times> string" where
  "turn_origin m =
     (if channel m = ''system'' then parse_origin (chat_id m) else (channel m, chat_id m))"

definition turn_messages :: "'s collaborators \<Rightarrow> agent_state \<Rightarrow> inbound_message \<Rightarrow> chat_message list" where
  "turn_messages env st m =
     build_messages env (get_history (get_or_create (sessions st) (turn_session_key m)))
       (content m) (if channel m = ''system'' then [] else media m)
       (fst (turn_origin m)) (snd (turn_origin m))"

text \<open>The two entries a completed turn adds to its session.\<close>

definition turn_entries :: "inbound_message \<Rightarrow> outbound_message \<Rightarrow> session_entry list" where
  "turn_entries m out =
     [\<lparr>role = ''user'', entry_content = turn_user_text m\<rparr>,
      \<lparr>role = ''assistant'', entry_content = out_content out\<rparr>]"

text \<open>What either method makes of the result of its loop.\<close>

definition turn_outcome ::
  "agent_state \<Rightarrow> inbound_message \<Rightarrow> (py_exception + string option \<times> int) \<times> 's
     \<Rightarrow> (py_exception + outbound_message) \<times> agent_state \<times> 's" where
  "turn_outcome st m r =
     (case r of
        (Inl e, s') \<Rightarrow> (Inl e, st\<lparr>tool_context := Some (turn_origin m)\<rparr>, s')
      | (Inr (final, iteration), s') \<Rightarrow>
          (Inr \<lparr>out_channel = fst (turn_origin m), out_chat_id = snd (turn_origin m),
                out_content = (case final of None \<Rightarrow> turn_fallback m | Some c \<Rightarrow> c)\<rparr>,
           st\<lparr>tool_context := Some (turn_origin m),
              sessions := (sessions st)(turn_session_key m \<mapsto>
               history_of (sessions st) (turn_session_key m) @
               [\<lparr>role = ''user'', entry_content = turn_user_text m\<rparr>,
                \<lparr>role = ''assistant'',
                 entry_content = (case final of None \<Rightarrow> turn_fallback m | Some c \<Rightarrow> c)\<rparr>])\<rparr>,
           s'))"

text \<open>
  The prefix of the apology: in English, "Sorry, I encountered an error:".
\<close>

definition msg_apology :: string where
  "msg_apology =
     [CHR 0xE6, CHR 0x8A, CHR 0xB1, CHR 0xE6, CHR 0xAD, CHR 0x89, CHR 0xEF, CHR 0xBC,
     CHR 0x8C, CHR 0xE6, CHR 0x88, CHR 0x91, CHR 0xE9, CHR 0x81, CHR 0x87, CHR 0xE5,
     CHR 0x88, CHR 0xB0, CHR 0xE4, CHR 0xBA, CHR 0x86, CHR 0xE4, CHR 0xB8, CHR 0x80,
     CHR 0xE4, CHR 0xB8, CHR 0xAA, CHR 0xE9, CHR 0x94, CHR 0x99, CHR 0xE8, CHR 0xAF,
     CHR 0xAF, CHR 0xEF, CHR 0xBC, CHR 0x9A]"

text \<open>
  One message through the body of \<open>AgentLoop.run\<close>: the reply is published, an exception
  becomes an apology addressed to the channel and chat of the message itself.
\<close>

definition run_message ::
  "'s collaborators \<Rightarrow> agent_config \<Rightarrow> 'w message_bus \<Rightarrow> agent_state \<Rightarrow> inbound_message \<Rightarrow> 's
     \<Rightarrow> 'w message_bus \<times> agent_state \<times> 's" where
  "run_message env cfg bus st m s =
     (case process_message env cfg st m s of
        (Inr response, st', s') \<Rightarrow> (publish_outbound bus response, st', s')
      | (Inl e, st', s') \<Rightarrow>
          (publish_outbound bus
             \<lparr>out_channel = channel m, out_chat_id = chat_id m,
              out_content = msg_apology @ str_of_exception e\<rparr>, st', s'))"

text \<open>
  A list of messages, one at a time as the single consumer of the inbound queue takes
  them; the result is \<open>None\<close> when a turn raises.
\<close>

fun process_all ::
  "'s collaborators \<Rightarrow> agent_config \<Rightarrow> agent_state \<Rightarrow> inbound_message list \<Rightarrow> 's
     \<Rightarrow> (outbound_message list \<times> agent_state \<times> 's) option" where
  "process_all env cfg st [] s = Some ([], st, s)"
| "process_all env cfg st (m # ms) s =
     (case process_message env cfg st m s of
        (Inl e, st', s') \<Rightarrow> None
      | (Inr out, st', s') \<Rightarrow>
          (case process_all env cfg st' ms s' of
             None \<Rightarrow> None
           | Some (outs, st'', s'') \<Rightarrow> Some (out # outs, st'', s'')))"

section \<open>The subagent manager (agent/subagent.py)\<close>






















section \<open>Concrete inputs\<close>

text \<open>
  The inputs at which the theorems below are instantiated: a callback that counts its
  calls, a schema with a property of each kind, collaborators whose provider raises,
  collaborators whose provider answers from a fixed sequence of responses and counts its
  calls, and messages, configuration and states to run them on.
\<close>

definition count_call :: "nat callback" where
  "count_call m w = (Inr (), Suc w)"



definition failing_env :: "unit collaborators" where
  "failing_env =
     \<lparr>provider_chat = (\<lambda>ms s. (Inl (RuntimeError ''connection reset''), s)),
      tools_execute = (\<lambda>ctx name args s. (Inr ''done'', s)),
      subagent_tools_execute = (\<lambda>name args s. (Inr ''done'', s)),
      json_dumps = (\<lambda>j. ''{}''),
      build_system_prompt = ''You are nanobot.'',
      encode_images = (\<lambda>paths. [])\<rparr>"

definition empty_bus :: "unit message_bus" where
  "empty_bus = \<lparr>inbound = [], outbound = [], outbound_subscribers = Map.empty\<rparr>"

definition scripted_env :: "(nat \<Rightarrow> llm_response) \<Rightarrow> (nat \<times> unit) collaborators" where
  "scripted_env resp =
     \<lparr>provider_chat = (\<lambda>ms (k, w). (Inr (resp k), (Suc k, w))),
      tools_execute = (\<lambda>ctx name args (k, w). (Inr ''ok'', (k, w))),
      subagent_tools_execute = (\<lambda>name args (k, w). (Inr ''ok'', (k, w))),
      json_dumps = (\<lambda>j. ''{}''),
      build_system_prompt = ''You are nanobot.'',
      encode_images = (\<lambda>paths. [])\<rparr>"

definition plain_response :: "string \<Rightarrow> llm_response" where
  "plain_response c = LLMResponse (Some c) ''stop''"

definition null_response :: llm_response where
  "null_response = LLMResponse None ''stop''"

definition tool_response :: llm_response where
  "tool_response =
     \<lparr>resp_content = None,
      tool_calls = [\<lparr>tc_id = ''call_1'', tc_name = ''list_dir'',
                     tc_arguments = JObj [(''path'', JStr ''.'')]\<rparr>],
      finish_reason = ''tool_calls'', usage = [], reasoning_content = None\<rparr>"

definition demo_config :: agent_config where
  "demo_config =
     \<lparr>workspace = ''/ws'', max_iterations = 20, restrict_to_workspace = False,
      exec_timeout = 60, brave_api_key = None, cron_service = False\<rparr>"

definition empty_state :: agent_state where
  "empty_state = \<lparr>sessions = Map.empty, tool_context = None\<rparr>"

definition user_message :: "string \<Rightarrow> inbound_message" where
  "user_message c =
     \<lparr>channel = ''telegram'', sender_id = ''u1'', chat_id = ''42'', content = c, media = [],
      session_key_override = None\<rparr>"

definition system_message :: "string \<Rightarrow> inbound_message" where
  "system_message cid =
     \<lparr>channel = ''system'', sender_id = ''subagent'', chat_id = cid, content = ''result'',
      media = [], session_key_override = None\<rparr>"

definition two_turns :: "(nat \<Rightarrow> llm_response)" where
  "two_turns k = (if k = 0 then tool_response else plain_response ''done'')"


section \<open>Filesystem tools: path restriction and edits\<close>

lemma resolve_path_Some:
  "resolve_path E R path (Some d) =
     (if py_startswith (E path) (R d) then Inr (E path)
      else Inl (PermissionError (msg_outside_1 @ path @ msg_outside_2 @ d @ msg_outside_3)))"
  by (simp add: resolve_path_def)

text \<open>
  Claim C9. With an allowed directory, \<open>_resolve_path\<close> admits a path exactly when the
  string of the resolved path starts with the string of the resolved allowed directory,
  and then returns the resolved path. The test is on strings: with \<open>/ws\<close> allowed, the
  path \<open>/ws2/f\<close> of a sibling directory is admitted. A rejected path makes \<open>execute\<close> of
  each of the four tools return the error text (none raises), and the write and edit
  tools leave the file tree as it was.
\<close>

theorem resolve_path_string_prefix:
  "((\<exists>r. resolve_path E R path (Some d) = Inr r) \<longleftrightarrow> py_startswith (E path) (R d)) \<and>
   (py_startswith (E path) (R d) \<longrightarrow> resolve_path E R path (Some d) = Inr (E path)) \<and>
   resolve_path (\<lambda>p. p) (\<lambda>p. p) ''/ws2/f'' (Some ''/ws'') = Inr ''/ws2/f'' \<and>
   (\<not> py_startswith (E path) (R d) \<longrightarrow>
      ReadFileTool_execute E R (Some d) t path =
        Inr (msg_error @ msg_outside_1 @ path @ msg_outside_2 @ d @ msg_outside_3) \<and>
      EditFileTool_execute E R (Some d) t path old_text new_text =
        (Inr (msg_error @ msg_outside_1 @ path @ msg_outside_2 @ d @ msg_outside_3), t) \<and>
      WriteFileTool_execute E R (Some d) t path text_arg =
        (Inr (msg_error @ msg_outside_1 @ path @ msg_outside_2 @ d @ msg_outside_3), t) \<and>
      ListDirTool_execute E R entries_of (Some d) t path =
        Inr (''Error: '' @ msg_outside_1 @ path @ msg_outside_2 @ d @ msg_outside_3))"
proof -
  have admits: "(\<exists>r. resolve_path E R path (Some d) = Inr r) \<longleftrightarrow> py_startswith (E path) (R d)"
    by (simp add: resolve_path_Some)
  have returns: "py_startswith (E path) (R d) \<longrightarrow> resolve_path E R path (Some d) = Inr (E path)"
    by (simp add: resolve_path_Some)
  have sibling: "resolve_path (\<lambda>p. p) (\<lambda>p. p) ''/ws2/f'' (Some ''/ws'') = Inr ''/ws2/f''"
    by (simp add: resolve_path_Some py_startswith_def)
  have read_rejected: "\<not> py_startswith (E path) (R d) \<longrightarrow>
      ReadFileTool_execute E R (Some d) t path =
        Inr (msg_error @ msg_outside_1 @ path @ msg_outside_2 @ d @ msg_outside_3)"
    by (simp add: ReadFileTool_execute_def ReadFileTool_body_def resolve_path_Some)
  have edit_rejected: "\<not> py_startswith (E path) (R d) \<longrightarrow>
      EditFileTool_execute E R (Some d) t path old_text new_text =
        (Inr (msg_error @ msg_outside_1 @ path @ msg_outside_2 @ d @ msg_outside_3), t)"
    by (simp add: EditFileTool_execute_def EditFileTool_body_def resolve_path_Some)
  have write_rejected: "\<not> py_startswith (E path) (R d) \<longrightarrow>
      WriteFileTool_execute E R (Some d) t path text_arg =
        (Inr (msg_error @ msg_outside_1 @ path @ msg_outside_2 @ d @ msg_outside_3), t)"
    by (simp add: WriteFileTool_execute_def WriteFileTool_body_def resolve_path_Some)
  have list_rejected: "\<not> py_startswith (E path) (R d) \<longrightarrow>
      ListDirTool_execute E R entries_of (Some d) t path =
        Inr (''Error: '' @ msg_outside_1 @ path @ msg_outside_2 @ d @ msg_outside_3)"
    by (simp add: ListDirTool_execute_def ListDirTool_body_def resolve_path_Some)
  from admits returns sibling read_rejected edit_rejected write_rejected list_rejected
  show ?thesis by blast
qed

text \<open>
  The write tool on an admitted path: it makes the missing directories and reports the
  length of the text.
\<close>

lemma WriteFileTool_creates:
  "WriteFileTool_execute (\<lambda>p. p) (\<lambda>p. p) (Some ''/ws'') [''/ws'' \<mapsto> Dir] ''/ws/a/f'' ''hello'' =
     (Inr (msg_written_1 @ ''5'' @ msg_written_2 @ ''/ws/a/f''),
      [''/ws'' \<mapsto> Dir, ''/ws/a'' \<mapsto> Dir, ''/ws/a/f'' \<mapsto> File ''hello''])"
  by (simp add: WriteFileTool_execute_def WriteFileTool_body_def resolve_path_Some
      py_startswith_def mkdir_parents_def dir_chain_def path_parent_def write_text_def upt_rec
      str_of_nat.simps)

theorem resolve_path_string_prefix_witness:
  "resolve_path (\<lambda>p. p) (\<lambda>p. p) ''/ws/notes.txt'' (Some ''/ws'') = Inr ''/ws/notes.txt'' \<and>
   ReadFileTool_execute (\<lambda>p. p) (\<lambda>p. p) (Some ''/ws'') Map.empty ''/etc/passwd'' =
     Inr (msg_error @ msg_outside_1 @ ''/etc/passwd'' @ msg_outside_2 @ ''/ws'' @ msg_outside_3) \<and>
   EditFileTool_execute (\<lambda>p. p) (\<lambda>p. p) (Some ''/ws'') Map.empty ''/etc/passwd'' ''a'' ''b'' =
     (Inr (msg_error @ msg_outside_1 @ ''/etc/passwd'' @ msg_outside_2 @ ''/ws'' @ msg_outside_3),
      Map.empty) \<and>
   WriteFileTool_execute (\<lambda>p. p) (\<lambda>p. p) (Some ''/ws'') Map.empty ''/etc/passwd'' ''x'' =
     (Inr (msg_error @ msg_outside_1 @ ''/etc/passwd'' @ msg_outside_2 @ ''/ws'' @ msg_outside_3),
      Map.empty) \<and>
   ListDirTool_execute (\<lambda>p. p) (\<lambda>p. p) (\<lambda>p. Inr []) (Some ''/ws'') Map.empty ''/etc/passwd'' =
     Inr (''Error: '' @ msg_outside_1 @ ''/etc/passwd'' @ msg_outside_2 @ ''/ws'' @ msg_outside_3)"
  using resolve_path_string_prefix
      [where E = "\<lambda>p. p" and R = "\<lambda>p. p" and path = "''/ws/notes.txt''" and d = "''/ws''"]
    resolve_path_string_prefix
      [where E = "\<lambda>p. p" and R = "\<lambda>p. p" and path = "''/etc/passwd''" and d = "''/ws''"
        and t = Map.empty and old_text = "''a''" and new_text = "''b''" and text_arg = "''x''"
        and entries_of = "\<lambda>p. Inr []"]
  by (simp add: py_startswith_def)

text \<open>
  What the edit tool does on a file it can read, by the count that \<open>str.count\<close> returns:
  above one it reports the count and writes nothing; otherwise, when the text is found,
  it replaces the leftmost occurrence.
\<close>

lemma EditFileTool_count_above_one:
  assumes "resolve_path E R path allowed = Inr fp" and "t fp = Some (File c)"
    and "py_in old_text c" and "1 < py_count old_text c"
  shows "EditFileTool_execute E R allowed t path old_text new_text =
     (Inr (msg_ambiguous_1 @ str_of_nat (py_count old_text c) @ msg_ambiguous_2), t)"
  using assms
  by (simp add: EditFileTool_execute_def EditFileTool_body_def path_exists_def read_text_def)

lemma EditFileTool_count_at_most_one:
  assumes "resolve_path E R path allowed = Inr fp" and "t fp = Some (File c)"
    and "py_in old_text c" and "\<not> 1 < py_count old_text c"
  shows "EditFileTool_execute E R allowed t path old_text new_text =
     (Inr (msg_edited @ path), t(fp \<mapsto> File (py_replace1 old_text new_text c)))"
  using assms
  by (simp add: EditFileTool_execute_def EditFileTool_body_def path_exists_def read_text_def
      write_text_def)

text \<open>
  Claim C8. The file \<open>/f\<close> holds \<open>aaa\<close>, in which \<open>aa\<close> occurs twice, at the positions 0
  and 1. \<open>str.count\<close> jumps over a match and counts one, so \<open>execute\<close> does not report an
  ambiguity: it replaces the occurrence at position 0 and the file becomes \<open>ba\<close>.
\<close>

theorem EditFileTool_overlapping_occurrences:
  "occurrences ''aa'' ''aaa'' = [0, 1] \<and>
   py_count ''aa'' ''aaa'' = 1 \<and>
   EditFileTool_execute (\<lambda>p. p) (\<lambda>p. p) None [''/f'' \<mapsto> File ''aaa''] ''/f'' ''aa'' ''b'' =
     (Inr (msg_edited @ ''/f''), [''/f'' \<mapsto> File ''ba''])"
  by (simp add: occurrences_def EditFileTool_execute_def EditFileTool_body_def resolve_path_def
      path_exists_def read_text_def write_text_def upt_rec)

section \<open>Parameter validation\<close>










section \<open>The registry of a subagent\<close>

text \<open>
  Claim C5. The registry built for a subagent turn holds neither the message tool nor the
  spawn tool, and holds filesystem, shell and web tools. For the manager that the agent
  loop constructs, it is the primary registry's filesystem, shell and web tools, with
  the same constructor arguments (allowed directory, working directory, timeout,
  restriction flag, search key), in the same order, without the edit tool.
\<close>

theorem subagent_registry_restricted:
  "MessageTool \<notin> set (subagent_tools mgr) \<and> SpawnTool \<notin> set (subagent_tools mgr) \<and>
   (\<exists>t \<in> set (subagent_tools mgr). is_filesystem_tool t) \<and>
   (\<exists>t \<in> set (subagent_tools mgr). is_shell_tool t) \<and>
   (\<exists>t \<in> set (subagent_tools mgr). is_web_tool t) \<and>
   subagent_tools (subagents_of cfg) =
     filter (\<lambda>t. (is_filesystem_tool t \<or> is_shell_tool t \<or> is_web_tool t) \<and>
                  t \<noteq> EditFileTool (allowed_dir_of cfg))
       (register_default_tools cfg)"
  by (simp add: subagent_tools_def subagents_of_def register_default_tools_def allowed_dir_of_def
      Let_def)

theorem subagent_registry_restricted_witness:
  "subagent_tools (subagents_of
      \<lparr>workspace = ''/ws'', max_iterations = 20, restrict_to_workspace = True,
       exec_timeout = 60, brave_api_key = None, cron_service = True\<rparr>) =
     [ReadFileTool (Some ''/ws''), WriteFileTool (Some ''/ws''), ListDirTool (Some ''/ws''),
      ExecTool ''/ws'' 60 True, WebSearchTool None, WebFetchTool]"
  using subagent_registry_restricted
      [where cfg = "\<lparr>workspace = ''/ws'', max_iterations = 20, restrict_to_workspace = True,
         exec_timeout = 60, brave_api_key = None, cron_service = True\<rparr>"
        and mgr = "subagents_of \<lparr>workspace = ''/ws'', max_iterations = 20,
         restrict_to_workspace = True, exec_timeout = 60, brave_api_key = None,
         cron_service = True\<rparr>"]
  by (simp add: register_default_tools_def allowed_dir_of_def Let_def)

section \<open>Outbound dispatch\<close>

text \<open>
  Claim C10. When the message at the head of the outbound queue is for a channel with no
  subscriber (no entry in the table, or an empty list), a round of \<open>dispatch_outbound\<close>
  takes it off the queue and does nothing else: the world of the callbacks, the log and
  the number of callback calls are as before, and the loop goes on with the rest of the
  queue.
\<close>

theorem dispatch_unsubscribed_discards:
  assumes "outbound bus = m # rest"
    and "outbound_subscribers bus (out_channel m) = None \<or>
         outbound_subscribers bus (out_channel m) = Some []"
  shows "dispatch_round bus w logged calls = (bus\<lparr>outbound := rest\<rparr>, w, logged, calls) \<and>
         dispatch_outbound (Suc n) bus w logged calls =
           dispatch_outbound n (bus\<lparr>outbound := rest\<rparr>) w logged calls"
  using assms by (auto simp: dispatch_round_def)

theorem dispatch_unsubscribed_discards_witness:
  "dispatch_outbound (Suc (Suc 0))
     \<lparr>inbound = [],
      outbound = [\<lparr>out_channel = ''discord'', out_chat_id = ''7'', out_content = ''a''\<rparr>,
                  \<lparr>out_channel = ''telegram'', out_chat_id = ''42'', out_content = ''b''\<rparr>],
      outbound_subscribers = [''telegram'' \<mapsto> [count_call]]\<rparr> 0 [] 0 =
   (\<lparr>inbound = [], outbound = [],
     outbound_subscribers = [''telegram'' \<mapsto> [count_call]]\<rparr>, 1, [], 1)"
  using dispatch_unsubscribed_discards
      [where bus = "\<lparr>inbound = [],
          outbound = [\<lparr>out_channel = ''discord'', out_chat_id = ''7'', out_content = ''a''\<rparr>,
                      \<lparr>out_channel = ''telegram'', out_chat_id = ''42'', out_content = ''b''\<rparr>],
          outbound_subscribers = [''telegram'' \<mapsto> [count_call]]\<rparr>"
        and m = "\<lparr>out_channel = ''discord'', out_chat_id = ''7'', out_content = ''a''\<rparr>"
        and rest = "[\<lparr>out_channel = ''telegram'', out_chat_id = ''42'', out_content = ''b''\<rparr>]"
        and w = 0 and logged = "[]" and calls = 0 and n = "Suc 0"]
  by (simp add: dispatch_round_def count_call_def)

section \<open>Provider failures\<close>



section \<open>Turns of the agent loop\<close>

lemma process_message_eq:
  "process_message env cfg st m s =
     turn_outcome st m
       (turn_loop env (Some (turn_origin m)) (max_iterations cfg) 0 (turn_messages env st m) s)"
proof (cases "channel m = ''system''")
  case True
  obtain oc oid where o: "parse_origin (chat_id m) = (oc, oid)"
    by (cases "parse_origin (chat_id m)")
  have origin: "turn_origin m = (oc, oid)" and key: "turn_session_key m = oc @ '':'' @ oid"
    and text_eq: "turn_user_text m = ''[System: '' @ sender_id m @ ''] '' @ content m"
    and fb: "turn_fallback m = system_fallback"
    using True o
    by (simp_all add: turn_origin_def turn_session_key_def turn_user_text_def turn_fallback_def)
  have msgs: "turn_messages env st m =
      build_messages env (get_history (get_or_create (sessions st) (oc @ '':'' @ oid)))
        (content m) [] oc oid"
    using True by (simp add: turn_messages_def origin key)
  obtain r s' where r: "turn_loop env (Some (oc, oid)) (max_iterations cfg) 0
      (build_messages env (get_history (get_or_create (sessions st) (oc @ '':'' @ oid)))
        (content m) [] oc oid) s = (r, s')"
    by (cases "turn_loop env (Some (oc, oid)) (max_iterations cfg) 0
      (build_messages env (get_history (get_or_create (sessions st) (oc @ '':'' @ oid)))
        (content m) [] oc oid) s")
  show ?thesis
  proof (cases r)
    case (Inl e)
    then show ?thesis
      using True o r
      by (simp add: process_message_def process_system_message_def turn_outcome_def origin msgs)
  next
    case (Inr p)
    obtain final iteration where p: "p = (final, iteration)" by (cases p)
    show ?thesis
      using True o r Inr p
      by (simp add: process_message_def process_system_message_def turn_outcome_def origin msgs
          key text_eq fb get_or_create_def add_message_def save_def Let_def
          split: option.splits)
  qed
next
  case False
  have origin: "turn_origin m = (channel m, chat_id m)" and key: "turn_session_key m = session_key m"
    and text_eq: "turn_user_text m = content m"
    and fb: "turn_fallback m = primary_fallback"
    using False
    by (simp_all add: turn_origin_def turn_session_key_def turn_user_text_def turn_fallback_def)
  have msgs: "turn_messages env st m =
      build_messages env (get_history (get_or_create (sessions st) (session_key m)))
        (content m) (media m) (channel m) (chat_id m)"
    using False by (simp add: turn_messages_def origin key)
  obtain r s' where r: "turn_loop env (Some (channel m, chat_id m)) (max_iterations cfg) 0
      (build_messages env (get_history (get_or_create (sessions st) (session_key m)))
        (content m) (media m) (channel m) (chat_id m)) s = (r, s')"
    by (cases "turn_loop env (Some (channel m, chat_id m)) (max_iterations cfg) 0
      (build_messages env (get_history (get_or_create (sessions st) (session_key m)))
        (content m) (media m) (channel m) (chat_id m)) s")
  show ?thesis
  proof (cases r)
    case (Inl e)
    then show ?thesis
      using False r
      by (simp add: process_message_def turn_outcome_def origin msgs)
  next
    case (Inr p)
    obtain final iteration where p: "p = (final, iteration)" by (cases p)
    show ?thesis
      using False r Inr p
      by (simp add: process_message_def turn_outcome_def origin msgs
          key text_eq fb get_or_create_def add_message_def save_def Let_def
          split: option.splits)
  qed
qed


text \<open>
  For any collaborators: when the loop ends without an exception, \<open>iteration\<close> has not
  passed the ceiling. Every pass through the body calls the provider once.
\<close>

lemma turn_loop_iteration_bound:
  "turn_loop env ctx M i msgs s = (Inr (final, it), s') \<Longrightarrow> i \<le> it \<and> it \<le> max i M"
proof (induction env ctx M i msgs s rule: turn_loop.induct)
  case (1 env ctx M i msgs s)
  show ?case
  proof (cases "i < M")
    case False
    with "1.prems" show ?thesis
      by (simp add: turn_loop.simps [of env ctx M i])
  next
    case True
    obtain r s1 where st: "turn_step env ctx msgs s = (r, s1)"
      by (cases "turn_step env ctx msgs s")
    show ?thesis
    proof (cases r)
      case (Raise e)
      with True st "1.prems" show ?thesis
        by (simp add: turn_loop.simps [of env ctx M i])
    next
      case (Break c)
      with True st "1.prems" show ?thesis
        by (auto simp: turn_loop.simps [of env ctx M i])
    next
      case (Continue msgs')
      with True st "1.prems" have
        "turn_loop env ctx M (i + 1) msgs' s1 = (Inr (final, it), s')"
        by (simp add: turn_loop.simps [of env ctx M i])
      from "1.IH" [OF True st [symmetric] Continue this] True show ?thesis
        by auto
    qed
  qed
qed

lemma all_from_Suc:
  "P k \<Longrightarrow> (\<forall>i. Suc k \<le> i \<and> i < n \<longrightarrow> P i) \<Longrightarrow> (\<forall>i. k \<le> i \<and> i < n \<longrightarrow> P i)"
  by (metis Suc_leI order_le_less)

lemma first_plain_Some:
  "first_plain resp k b = Some j \<Longrightarrow>
     k \<le> j \<and> j < k + b \<and> \<not> has_tool_calls (resp j) \<and>
     (\<forall>i. k \<le> i \<and> i < j \<longrightarrow> has_tool_calls (resp i))"
proof (induction b arbitrary: k)
  case 0
  then show ?case by simp
next
  case (Suc b)
  show ?case
  proof (cases "has_tool_calls (resp k)")
    case True
    with Suc.prems have "first_plain resp (Suc k) b = Some j" by simp
    from Suc.IH [OF this] True all_from_Suc [of "\<lambda>i. has_tool_calls (resp i)" k j]
    show ?thesis by simp
  next
    case False
    with Suc.prems show ?thesis by auto
  qed
qed

lemma first_plain_None:
  "first_plain resp k b = None \<Longrightarrow> \<forall>i. k \<le> i \<and> i < k + b \<longrightarrow> has_tool_calls (resp i)"
proof (induction b arbitrary: k)
  case 0
  then show ?case by auto
next
  case (Suc b)
  show ?case
  proof (cases "has_tool_calls (resp k)")
    case True
    with Suc.prems have "first_plain resp (Suc k) b = None" by simp
    from Suc.IH [OF this] True
      all_from_Suc [of "\<lambda>i. has_tool_calls (resp i)" k "k + Suc b"]
    show ?thesis by simp
  next
    case False
    with Suc.prems show ?thesis by simp
  qed
qed

lemma execute_tool_calls_returns:
  assumes "\<forall>ctx name args k w. \<exists>r w'. tools_execute env ctx name args (k, w) = (Inr r, (k, w'))"
  shows "\<exists>msgs' w'. execute_tool_calls env ctx tcs msgs (k, w) = (Inr msgs', (k, w'))"
proof (induction tcs arbitrary: msgs w)
  case Nil
  then show ?case by simp
next
  case (Cons tc tcs)
  obtain r w1 where "tools_execute env ctx (tc_name tc) (tc_arguments tc) (k, w) = (Inr r, (k, w1))"
    using assms by blast
  then show ?case
    using Cons.IH [of "add_tool_result msgs (tc_id tc) (tc_name tc) r" w1] by simp
qed

lemma turn_step_scripted:
  assumes "provider_chat env = (\<lambda>ms (k, w). (Inr (resp k), (Suc k, w)))"
    and "\<forall>ctx name args k w. \<exists>r w'. tools_execute env ctx name args (k, w) = (Inr r, (k, w'))"
  shows "(has_tool_calls (resp k) \<longrightarrow>
           (\<exists>msgs' w'. turn_step env ctx msgs (k, w) = (Continue msgs', (Suc k, w')))) \<and>
         (\<not> has_tool_calls (resp k) \<longrightarrow>
           turn_step env ctx msgs (k, w) = (Break (resp_content (resp k)), (Suc k, w)))"
proof (cases "has_tool_calls (resp k)")
  case True
  obtain msgs' w' where
    "execute_tool_calls env ctx (tool_calls (resp k))
       (add_assistant_message msgs (resp_content (resp k))
          (tool_call_dicts env (tool_calls (resp k))) (reasoning_content (resp k)))
       (Suc k, w) = (Inr msgs', (Suc k, w'))"
    using execute_tool_calls_returns [OF assms(2)] by blast
  then show ?thesis
    using True by (simp add: turn_step_def assms(1))
next
  case False
  then show ?thesis
    by (simp add: turn_step_def assms(1))
qed

lemma turn_loop_scripted:
  assumes "provider_chat env = (\<lambda>ms (k, w). (Inr (resp k), (Suc k, w)))"
    and "\<forall>ctx name args k w. \<exists>r w'. tools_execute env ctx name args (k, w) = (Inr r, (k, w'))"
  shows "\<exists>it w'. turn_loop env ctx M i msgs (k, w) =
     (Inr (case first_plain resp k (nat (M - i)) of
             None \<Rightarrow> None
           | Some j \<Rightarrow> resp_content (resp j), it),
      (case first_plain resp k (nat (M - i)) of
         None \<Rightarrow> k + nat (M - i)
       | Some j \<Rightarrow> Suc j), w')"
proof (induction "nat (M - i)" arbitrary: i k msgs w)
  case 0
  then have "\<not> i < M" by simp
  then show ?case
    using 0 by (simp add: turn_loop.simps [of env ctx M i])
next
  case (Suc b)
  then have lt: "i < M" and b: "b = nat (M - (i + 1))" by simp_all
  have fp: "nat (M - i) = Suc b" using Suc.hyps(2) by simp
  show ?case
  proof (cases "has_tool_calls (resp k)")
    case True
    obtain msgs' w1 where st: "turn_step env ctx msgs (k, w) = (Continue msgs', (Suc k, w1))"
      using turn_step_scripted [OF assms, of k ctx msgs w] True by blast
    obtain it w' where "turn_loop env ctx M (i + 1) msgs' (Suc k, w1) =
       (Inr (case first_plain resp (Suc k) (nat (M - (i + 1))) of
               None \<Rightarrow> None
             | Some j \<Rightarrow> resp_content (resp j), it),
        (case first_plain resp (Suc k) (nat (M - (i + 1))) of
           None \<Rightarrow> Suc k + nat (M - (i + 1))
         | Some j \<Rightarrow> Suc j), w')"
      using Suc.hyps(1) [OF b, of msgs' "Suc k" w1] by blast
    then show ?thesis
      using lt st True fp b
      by (simp add: turn_loop.simps [of env ctx M i] split: option.splits)
  next
    case False
    have st: "turn_step env ctx msgs (k, w) = (Break (resp_content (resp k)), (Suc k, w))"
      using turn_step_scripted [OF assms, of k ctx msgs w] False by blast
    show ?thesis
      using lt st False fp
      by (simp add: turn_loop.simps [of env ctx M i])
  qed
qed

lemma scripted_env_provider:
  "provider_chat (scripted_env resp) = (\<lambda>ms (k, w). (Inr (resp k), (Suc k, w)))"
  by (simp add: scripted_env_def)

lemma scripted_env_tools:
  "\<forall>ctx name args k w. \<exists>r w'.
     tools_execute (scripted_env resp) ctx name args (k, w) = (Inr r, (k, w'))"
  by (simp add: scripted_env_def)

lemma turn_scripted:
  assumes "provider_chat env = (\<lambda>ms (k, w). (Inr (resp k), (Suc k, w)))"
    and "\<forall>ctx name args k w. \<exists>r w'. tools_execute env ctx name args (k, w) = (Inr r, (k, w'))"
  shows "\<exists>st' w'.
     process_message env cfg st m (0, w) =
       (Inr \<lparr>out_channel = fst (turn_origin m), out_chat_id = snd (turn_origin m),
             out_content =
               (case first_plain resp 0 (nat (max_iterations cfg)) of
                  None \<Rightarrow> turn_fallback m
                | Some j \<Rightarrow>
                    (case resp_content (resp j) of None \<Rightarrow> turn_fallback m | Some c \<Rightarrow> c))\<rparr>,
        st',
        (case first_plain resp 0 (nat (max_iterations cfg)) of
           None \<Rightarrow> nat (max_iterations cfg)
         | Some j \<Rightarrow> Suc j), w')"
proof -
  obtain it w' where
    "turn_loop env (Some (turn_origin m)) (max_iterations cfg) 0 (turn_messages env st m) (0, w) =
       (Inr (case first_plain resp 0 (nat (max_iterations cfg - 0)) of
               None \<Rightarrow> None
             | Some j \<Rightarrow> resp_content (resp j), it),
        (case first_plain resp 0 (nat (max_iterations cfg - 0)) of
           None \<Rightarrow> 0 + nat (max_iterations cfg - 0)
         | Some j \<Rightarrow> Suc j), w')"
    using turn_loop_scripted [OF assms] by blast
  then show ?thesis
    by (auto simp: process_message_eq turn_outcome_def split: option.splits)
qed

text \<open>
  Claim C2, as amended. The provider answers its calls with \<open>resp 0\<close>, \<open>resp 1\<close>, ... and
  counts them; the tools return. Then a primary turn ends with an \<open>OutboundMessage\<close> after
  \<open>n\<close> calls of the provider, \<open>n\<close> at most \<open>max_iterations\<close>. When all of the first
  \<open>max_iterations\<close> responses carry tool calls, \<open>n\<close> is \<open>max_iterations\<close> and the content is
  the fallback text. Otherwise \<open>n\<close> counts up to the first response without tool calls,
  and the content is the content of that response, or the fallback text when that
  content is null.
\<close>

theorem primary_turn_bounded:
  assumes "provider_chat env = (\<lambda>ms (k, w). (Inr (resp k), (Suc k, w)))"
    and "\<forall>ctx name args k w. \<exists>r w'. tools_execute env ctx name args (k, w) = (Inr r, (k, w'))"
    and "channel m \<noteq> ''system''"
  shows "\<exists>out st' n w'.
     process_message env cfg st m (0, w) = (Inr out, st', (n, w')) \<and>
     n \<le> nat (max_iterations cfg) \<and>
     (case first_plain resp 0 (nat (max_iterations cfg)) of
        None \<Rightarrow>
          n = nat (max_iterations cfg) \<and> (\<forall>i<n. has_tool_calls (resp i)) \<and>
          out_content out = primary_fallback
      | Some j \<Rightarrow>
          n = Suc j \<and> (\<forall>i<j. has_tool_calls (resp i)) \<and> \<not> has_tool_calls (resp j) \<and>
          out_content out =
            (case resp_content (resp j) of None \<Rightarrow> primary_fallback | Some c \<Rightarrow> c))"
proof -
  have fb: "turn_fallback m = primary_fallback"
    using assms(3) by (simp add: turn_fallback_def)
  obtain st' w' where run:
    "process_message env cfg st m (0, w) =
       (Inr \<lparr>out_channel = fst (turn_origin m), out_chat_id = snd (turn_origin m),
             out_content =
               (case first_plain resp 0 (nat (max_iterations cfg)) of
                  None \<Rightarrow> turn_fallback m
                | Some j \<Rightarrow>
                    (case resp_content (resp j) of None \<Rightarrow> turn_fallback m | Some c \<Rightarrow> c))\<rparr>,
        st',
        (case first_plain resp 0 (nat (max_iterations cfg)) of
           None \<Rightarrow> nat (max_iterations cfg)
         | Some j \<Rightarrow> Suc j), w')"
    using turn_scripted [OF assms(1,2)] by blast
  show ?thesis
  proof (cases "first_plain resp 0 (nat (max_iterations cfg))")
    case None
    from first_plain_None [OF None] run [unfolded fb] None show ?thesis by simp
  next
    case (Some j)
    from first_plain_Some [OF Some] run [unfolded fb] Some show ?thesis by simp
  qed
qed

theorem primary_turn_bounded_witness:
  "fst (process_message
          (scripted_env (\<lambda>k. if k < 2 then tool_response else plain_response ''done''))
          demo_config empty_state (user_message ''hi'') (0, ())) =
     Inr \<lparr>out_channel = ''telegram'', out_chat_id = ''42'', out_content = ''done''\<rparr> \<and>
   fst (snd (snd (process_message
          (scripted_env (\<lambda>k. if k < 2 then tool_response else plain_response ''done''))
          demo_config empty_state (user_message ''hi'') (0, ())))) = 3"
proof -
  let ?resp = "\<lambda>k::nat. if k < 2 then tool_response else plain_response ''done''"
  have ch: "channel (user_message ''hi'') \<noteq> ''system''"
    by (simp add: user_message_def)
  have fp: "first_plain ?resp 0 (nat (max_iterations demo_config)) = Some 2"
    by (simp add: demo_config_def eval_nat_numeral has_tool_calls_def tool_response_def
        plain_response_def LLMResponse_def)
  obtain out st' n w' where
    run: "process_message (scripted_env ?resp) demo_config empty_state (user_message ''hi'')
            (0, ()) = (Inr out, st', (n, w'))"
    and rest: "case first_plain ?resp 0 (nat (max_iterations demo_config)) of
        None \<Rightarrow>
          n = nat (max_iterations demo_config) \<and> (\<forall>i<n. has_tool_calls (?resp i)) \<and>
          out_content out = primary_fallback
      | Some j \<Rightarrow>
          n = Suc j \<and> (\<forall>i<j. has_tool_calls (?resp i)) \<and> \<not> has_tool_calls (?resp j) \<and>
          out_content out =
            (case resp_content (?resp j) of None \<Rightarrow> primary_fallback | Some c \<Rightarrow> c)"
    using primary_turn_bounded [where resp = ?resp and cfg = demo_config and st = empty_state
        and w = "()", OF scripted_env_provider scripted_env_tools ch]
    by blast
  have n: "n = 3" and c: "out_content out = ''done''"
    using rest by (simp_all add: fp plain_response_def LLMResponse_def)
  have "out_channel out = ''telegram'' \<and> out_chat_id out = ''42''"
    using run
    by (auto simp: process_message_eq turn_outcome_def turn_origin_def user_message_def
        split: prod.splits sum.splits)
  then have "out = \<lparr>out_channel = ''telegram'', out_chat_id = ''42'', out_content = ''done''\<rparr>"
    using c by (cases out) simp
  then show ?thesis using run n by simp
qed

text \<open>
  Claim C2 as stated fails: the first response has no tool calls and null content. The
  turn ends after one call of twenty with the fallback text.
\<close>

theorem primary_turn_counterexample:
  "fst (process_message (scripted_env (\<lambda>k. null_response)) demo_config empty_state
          (user_message ''hi'') (0, ())) =
     Inr \<lparr>out_channel = ''telegram'', out_chat_id = ''42'', out_content = primary_fallback\<rparr> \<and>
   fst (snd (snd (process_message (scripted_env (\<lambda>k. null_response)) demo_config empty_state
          (user_message ''hi'') (0, ())))) = 1 \<and>
   max_iterations demo_config = 20"
  using turn_scripted [OF scripted_env_provider scripted_env_tools,
      where resp = "\<lambda>k. null_response" and m = "user_message ''hi''" and cfg = demo_config
        and st = empty_state and w = "()"]
  by (auto simp: user_message_def demo_config_def eval_nat_numeral has_tool_calls_def
      null_response_def LLMResponse_def turn_origin_def turn_fallback_def)

lemma parse_origin_colon:
  assumes "CHR '':'' \<in> set cid"
  shows "cid = fst (parse_origin cid) @ '':'' @ snd (parse_origin cid) \<and>
         CHR '':'' \<notin> set (fst (parse_origin cid))"
proof -
  have ne: "dropWhile (\<lambda>c. c \<noteq> CHR '':'') cid \<noteq> []"
    using assms by (simp add: dropWhile_eq_Nil_conv)
  then have "hd (dropWhile (\<lambda>c. c \<noteq> CHR '':'') cid) = CHR '':''"
    using hd_dropWhile [of "\<lambda>c. c \<noteq> CHR '':''" cid] by simp
  then have "dropWhile (\<lambda>c. c \<noteq> CHR '':'') cid =
      CHR '':'' # tl (dropWhile (\<lambda>c. c \<noteq> CHR '':'') cid)"
    using ne by (cases "dropWhile (\<lambda>c. c \<noteq> CHR '':'') cid") simp_all
  then have "cid = takeWhile (\<lambda>c. c \<noteq> CHR '':'') cid @
      CHR '':'' # tl (dropWhile (\<lambda>c. c \<noteq> CHR '':'') cid)"
    using takeWhile_dropWhile_id [of "\<lambda>c. c \<noteq> CHR '':''" cid] by simp
  moreover have "CHR '':'' \<notin> set (takeWhile (\<lambda>c. c \<noteq> CHR '':'') cid)"
    by (auto dest: set_takeWhileD)
  ultimately show ?thesis
    using assms by (simp add: parse_origin_def py_split1_def)
qed

lemma parse_origin_system:
  "fst (parse_origin cid) = ''system'' \<longleftrightarrow> prefix ''system:'' cid"
proof (cases "CHR '':'' \<in> set cid")
  case True
  show ?thesis
  proof
    assume "fst (parse_origin cid) = ''system''"
    with parse_origin_colon [OF True] have "cid = ''system'' @ '':'' @ snd (parse_origin cid)"
      by simp
    then have "cid = ''system:'' @ snd (parse_origin cid)" by simp
    then show "prefix ''system:'' cid" by (metis prefixI)
  next
    assume "prefix ''system:'' cid"
    then obtain rest where "cid = ''system:'' @ rest" by (auto simp: prefix_def)
    then show "fst (parse_origin cid) = ''system''"
      by (simp add: parse_origin_def py_split1_def)
  qed
next
  case False
  then have "\<not> prefix ''system:'' cid"
    by (auto simp: prefix_def)
  then show ?thesis
    using False by (simp add: parse_origin_def)
qed

text \<open>
  Claim C1, as amended. For a message of channel \<open>system\<close> whose processing returns an
  \<open>OutboundMessage\<close>: when chat_id has a colon, chat_id is the reply's channel, a colon and
  the reply's chat_id, and the channel has no colon (the split is at the first colon);
  when chat_id has no colon, the channel is \<open>cli\<close> and the chat_id is the message's own.
  The reply is addressed to channel \<open>system\<close> exactly when chat_id starts with
  \<open>system:\<close>.
\<close>

theorem system_message_routing:
  assumes "channel m = ''system''"
    and "process_message env cfg st m s = (Inr out, st', s')"
  shows "(CHR '':'' \<in> set (chat_id m) \<longrightarrow>
            chat_id m = out_channel out @ '':'' @ out_chat_id out \<and>
            CHR '':'' \<notin> set (out_channel out)) \<and>
         (CHR '':'' \<notin> set (chat_id m) \<longrightarrow>
            out_channel out = ''cli'' \<and> out_chat_id out = chat_id m) \<and>
         (out_channel out = ''system'' \<longleftrightarrow> prefix ''system:'' (chat_id m))"
proof -
  have "out_channel out = fst (parse_origin (chat_id m)) \<and>
        out_chat_id out = snd (parse_origin (chat_id m))"
    using assms
    by (auto simp: process_message_eq turn_outcome_def turn_origin_def
        split: prod.splits sum.splits)
  then show ?thesis
    using parse_origin_colon [of "chat_id m"] parse_origin_system [of "chat_id m"]
    by (auto simp: parse_origin_def)
qed

lemma system_turn_result:
  "fst (process_message (scripted_env (\<lambda>k. plain_response ''done'')) demo_config empty_state
          (system_message cid) (0, ())) =
     Inr \<lparr>out_channel = fst (parse_origin cid), out_chat_id = snd (parse_origin cid),
          out_content = ''done''\<rparr>"
  using turn_scripted [OF scripted_env_provider scripted_env_tools,
      where resp = "\<lambda>k. plain_response ''done''" and m = "system_message cid"
        and cfg = demo_config and st = empty_state and w = "()"]
  by (auto simp: system_message_def demo_config_def eval_nat_numeral has_tool_calls_def
      plain_response_def LLMResponse_def turn_origin_def)

theorem system_message_routing_witness:
  "chat_id (system_message ''telegram:42'') = ''telegram'' @ '':'' @ ''42'' \<and>
   fst (process_message (scripted_env (\<lambda>k. plain_response ''done'')) demo_config empty_state
          (system_message ''telegram:42'') (0, ())) =
     Inr \<lparr>out_channel = ''telegram'', out_chat_id = ''42'', out_content = ''done''\<rparr>"
proof -
  obtain out st' s' where
    run: "process_message (scripted_env (\<lambda>k. plain_response ''done'')) demo_config empty_state
            (system_message ''telegram:42'') (0, ()) = (Inr out, st', s')"
    using system_turn_result [of "''telegram:42''"]
    by (cases "process_message (scripted_env (\<lambda>k. plain_response ''done'')) demo_config
          empty_state (system_message ''telegram:42'') (0, ())") auto
  have sys: "channel (system_message ''telegram:42'') = ''system''"
    by (simp add: system_message_def)
  have "chat_id (system_message ''telegram:42'') = out_channel out @ '':'' @ out_chat_id out \<and>
        CHR '':'' \<notin> set (out_channel out)"
    using system_message_routing [OF sys run] by (simp add: system_message_def)
  then have "out_channel out = ''telegram'' \<and> out_chat_id out = ''42''"
    using system_turn_result [of "''telegram:42''"] run
    by (simp add: parse_origin_def py_split1_def)
  moreover have "out_content out = ''done''"
    using system_turn_result [of "''telegram:42''"] run by auto
  ultimately have "out = \<lparr>out_channel = ''telegram'', out_chat_id = ''42'',
      out_content = ''done''\<rparr>"
    by (cases out) simp
  then show ?thesis
    using run by (simp add: system_message_def)
qed

text \<open>
  Claim C1 as stated fails: chat_id \<open>system:42\<close> gives a reply addressed to channel
  \<open>system\<close>, and the chat_ids \<open>42\<close> and \<open>7\<close>, without a colon, give two different
  channel and chat pairs.
\<close>

theorem system_message_routing_counterexample:
  "fst (process_message (scripted_env (\<lambda>k. plain_response ''done'')) demo_config empty_state
          (system_message ''system:42'') (0, ())) =
     Inr \<lparr>out_channel = ''system'', out_chat_id = ''42'', out_content = ''done''\<rparr> \<and>
   fst (process_message (scripted_env (\<lambda>k. plain_response ''done'')) demo_config empty_state
          (system_message ''42'') (0, ())) =
     Inr \<lparr>out_channel = ''cli'', out_chat_id = ''42'', out_content = ''done''\<rparr> \<and>
   fst (process_message (scripted_env (\<lambda>k. plain_response ''done'')) demo_config empty_state
          (system_message ''7'') (0, ())) =
     Inr \<lparr>out_channel = ''cli'', out_chat_id = ''7'', out_content = ''done''\<rparr>"
  by (simp add: system_turn_result parse_origin_def py_split1_def)

text \<open>
  When the turn of a system message raises, \<open>run\<close> addresses its apology to the channel
  and chat of the message itself: channel \<open>system\<close>.
\<close>

lemma system_message_failure_apology:
  "run_message failing_env demo_config empty_bus empty_state (system_message ''telegram:42'') () =
     (\<lparr>inbound = [],
       outbound = [\<lparr>out_channel = ''system'', out_chat_id = ''telegram:42'',
                    out_content = msg_apology @ ''connection reset''\<rparr>],
       outbound_subscribers = Map.empty\<rparr>,
      \<lparr>sessions = Map.empty, tool_context = Some (''telegram'', ''42'')\<rparr>, ())"
  by (simp add: run_message_def process_message_eq turn_outcome_def turn_loop.simps
      turn_step_def failing_env_def demo_config_def empty_bus_def empty_state_def
      system_message_def turn_origin_def parse_origin_def py_split1_def publish_outbound_def)

lemma process_message_sessions:
  "process_message env cfg st m s = (Inr out, st', s') \<Longrightarrow>
     sessions st' = (sessions st)(turn_session_key m \<mapsto>
       history_of (sessions st) (turn_session_key m) @
       [\<lparr>role = ''user'', entry_content = turn_user_text m\<rparr>,
        \<lparr>role = ''assistant'', entry_content = out_content out\<rparr>])"
  by (auto simp: process_message_eq turn_outcome_def split: prod.splits sum.splits)

lemma process_message_raised:
  "process_message env cfg st m s = (Inl e, st', s') \<Longrightarrow> sessions st' = sessions st"
  by (auto simp: process_message_eq turn_outcome_def split: prod.splits sum.splits)

lemma process_all_sessions:
  "process_all env cfg st ms s = Some (outs, st', s') \<Longrightarrow>
   \<forall>m \<in> set ms. turn_session_key m = k \<Longrightarrow>
     length outs = length ms \<and>
     history_of (sessions st') k =
       history_of (sessions st) k @ concat (map (\<lambda>(m, out). turn_entries m out) (zip ms outs))"
proof (induction ms arbitrary: st s outs)
  case Nil
  then show ?case by simp
next
  case (Cons m ms)
  from Cons.prems(1) obtain out st1 s1 outs1 where
    step: "process_message env cfg st m s = (Inr out, st1, s1)"
    and rest: "process_all env cfg st1 ms s1 = Some (outs1, st', s')"
    and outs: "outs = out # outs1"
    by (auto split: prod.splits sum.splits option.splits)
  have key: "turn_session_key m = k" and keys: "\<forall>m \<in> set ms. turn_session_key m = k"
    using Cons.prems(2) by simp_all
  have "history_of (sessions st1) k = history_of (sessions st) k @ turn_entries m out"
    using process_message_sessions [OF step] key
    by (simp add: history_of_def turn_entries_def)
  moreover have "length outs1 = length ms \<and>
     history_of (sessions st') k =
       history_of (sessions st1) k @
       concat (map (\<lambda>(m, out). turn_entries m out) (zip ms outs1))"
    by (rule Cons.IH [OF rest keys])
  ultimately show ?case
    using outs by simp
qed

text \<open>
  Claim C3. A message processed to completion leaves the session store as it was but for
  the session of the turn, whose history has one user entry and one assistant entry
  more, at its end, whatever the number of iterations; a turn that raises leaves the
  store as it was. Over a list of messages to one session, each processed to completion,
  the history is the old one followed by one such pair per message.
\<close>

theorem session_history_grows_by_pairs:
  "(process_message env cfg st m s = (Inr out, st', s') \<longrightarrow>
      sessions st' = (sessions st)(turn_session_key m \<mapsto>
        history_of (sessions st) (turn_session_key m) @
        [\<lparr>role = ''user'', entry_content = turn_user_text m\<rparr>,
         \<lparr>role = ''assistant'', entry_content = out_content out\<rparr>])) \<and>
   (process_message env cfg st m s = (Inl e, st', s') \<longrightarrow> sessions st' = sessions st) \<and>
   (process_all env cfg st ms s = Some (outs, st'', s'') \<and>
    (\<forall>m \<in> set ms. turn_session_key m = k) \<longrightarrow>
      length outs = length ms \<and>
      history_of (sessions st'') k =
        history_of (sessions st) k @
        concat (map (\<lambda>(m, out). turn_entries m out) (zip ms outs)) \<and>
      length (history_of (sessions st'') k) = length (history_of (sessions st) k) + 2 * length ms \<and>
      prefix (history_of (sessions st) k) (history_of (sessions st'') k))"
proof -
  have len: "length (concat (map (\<lambda>(m, out). turn_entries m out) (zip xs ys))) =
      2 * length xs" if "length ys = length xs" for xs :: "inbound_message list" and ys
    using that
    by (induction xs ys rule: list_induct2') (simp_all add: turn_entries_def)
  have many: "length outs = length ms \<and>
      history_of (sessions st'') k =
        history_of (sessions st) k @
        concat (map (\<lambda>(m, out). turn_entries m out) (zip ms outs)) \<and>
      length (history_of (sessions st'') k) = length (history_of (sessions st) k) + 2 * length ms \<and>
      prefix (history_of (sessions st) k) (history_of (sessions st'') k)"
    if "process_all env cfg st ms s = Some (outs, st'', s'')"
      and "\<forall>m \<in> set ms. turn_session_key m = k"
    using process_all_sessions [OF that] len [of outs ms] by simp
  show ?thesis
    using process_message_sessions [of env cfg st m s out st' s']
      process_message_raised [of env cfg st m s e st' s'] many
    by blast
qed

lemma two_turns_run:
  "process_all (scripted_env two_turns) demo_config empty_state
     [user_message ''hi'', user_message ''again''] (0, ()) =
   Some ([\<lparr>out_channel = ''telegram'', out_chat_id = ''42'', out_content = ''done''\<rparr>,
          \<lparr>out_channel = ''telegram'', out_chat_id = ''42'', out_content = ''done''\<rparr>],
         \<lparr>sessions = [''telegram:42'' \<mapsto>
            [\<lparr>role = ''user'', entry_content = ''hi''\<rparr>,
             \<lparr>role = ''assistant'', entry_content = ''done''\<rparr>,
             \<lparr>role = ''user'', entry_content = ''again''\<rparr>,
             \<lparr>role = ''assistant'', entry_content = ''done''\<rparr>]],
          tool_context = Some (''telegram'', ''42'')\<rparr>, (3, ()))"
  by (simp add: process_message_eq turn_outcome_def turn_loop.simps turn_step_def
      scripted_env_def two_turns_def tool_response_def plain_response_def LLMResponse_def
      has_tool_calls_def demo_config_def empty_state_def user_message_def turn_origin_def
      turn_session_key_def session_key_def turn_user_text_def history_of_def)

theorem session_history_grows_by_pairs_witness:
  "map_option (\<lambda>(outs, st, s). history_of (sessions st) ''telegram:42'')
     (process_all (scripted_env two_turns) demo_config empty_state
        [user_message ''hi'', user_message ''again''] (0, ())) =
   Some [\<lparr>role = ''user'', entry_content = ''hi''\<rparr>,
         \<lparr>role = ''assistant'', entry_content = ''done''\<rparr>,
         \<lparr>role = ''user'', entry_content = ''again''\<rparr>,
         \<lparr>role = ''assistant'', entry_content = ''done''\<rparr>]"
  using session_history_grows_by_pairs
      [where env = "scripted_env two_turns" and cfg = demo_config and st = empty_state
        and ms = "[user_message ''hi'', user_message ''again'']" and s = "(0, ())"
        and k = "''telegram:42''"
        and outs = "[\<lparr>out_channel = ''telegram'', out_chat_id = ''42'', out_content = ''done''\<rparr>,
          \<lparr>out_channel = ''telegram'', out_chat_id = ''42'', out_content = ''done''\<rparr>]"
        and st'' = "\<lparr>sessions = [''telegram:42'' \<mapsto>
            [\<lparr>role = ''user'', entry_content = ''hi''\<rparr>,
             \<lparr>role = ''assistant'', entry_content = ''done''\<rparr>,
             \<lparr>role = ''user'', entry_content = ''again''\<rparr>,
             \<lparr>role = ''assistant'', entry_content = ''done''\<rparr>]],
          tool_context = Some (''telegram'', ''42'')\<rparr>"
        and s'' = "(3, ())"]
    two_turns_run
  by (simp add: history_of_def)

section \<open>Subagent announcements\<close>



end
